theory Spec2Isabelle
  imports Main
begin

section \<open>Python values used by the 3D page handler\<close>

text \<open>
  The handler \<open>ThreeDHandler.get\<close> of \<open>tornado_handlers/three_d.py\<close> reads typed numeric
  columns out of a parsed ULog file, converts device timestamps to UTC and formats every
  sample with Python's \<open>str.format\<close>. The numbers it formats are IEEE-754 binary floats, so
  a finite float is kept here as sign, mantissa and binary exponent (the exact dyadic value
  \<open>m * 2^e\<close>), and every arithmetic result is rounded to nearest, ties to even, as the
  hardware does.
\<close>

datatype fl = Fin bool int int | Inf bool | NaN

text \<open>Number of binary digits of a positive integer.\<close>

function bitlen :: "int \<Rightarrow> int" where
  "bitlen n = (if n \<le> 0 then 0 else 1 + bitlen (n div 2))"
  by pat_completeness auto
termination
  by (relation "measure nat") auto

declare bitlen.simps [simp del]

definition pow2 :: "int \<Rightarrow> int" where
  "pow2 k = 2 ^ nat k"

text \<open>\<open>ilog2 p q\<close> is the floor of the binary logarithm of \<open>p / q\<close> for positive \<open>p\<close>, \<open>q\<close>.\<close>

definition ilog2 :: "int \<Rightarrow> int \<Rightarrow> int" where
  "ilog2 p q =
     (let k = bitlen p - bitlen q
      in if (if 0 \<le> k then q * pow2 k \<le> p else q \<le> p * pow2 (- k)) then k else k - 1)"

text \<open>\<open>round_half_even p q\<close> is \<open>p / q\<close> rounded to the nearest integer, ties to even.\<close>

definition round_half_even :: "int \<Rightarrow> int \<Rightarrow> int" where
  "round_half_even p q =
     (let f = p div q; r = p mod q
      in if 2 * r < q then f
         else if q < 2 * r then f + 1
         else if even f then f else f + 1)"

text \<open>
  Rounding of the exact magnitude \<open>p / q\<close> to a binary format with \<open>prec\<close> significant
  bits, least exponent \<open>emin\<close> (subnormals) and overflow to infinity at \<open>2^emax\<close>.
\<close>

definition round_to :: "int \<Rightarrow> int \<Rightarrow> int \<Rightarrow> bool \<Rightarrow> int \<Rightarrow> int \<Rightarrow> fl" where
  "round_to prec emin emax s p q =
     (if p = 0 then Fin s 0 0
      else let e = max (ilog2 p q - (prec - 1)) emin;
               m = (if 0 \<le> e then round_half_even p (q * pow2 e)
                    else round_half_even (p * pow2 (- e)) q)
           in if emax < bitlen m + e then Inf s else Fin s m e)"

text \<open>\<open>double s p q\<close>: the float64 nearest to \<open>\<plusminus> p / q\<close>; \<open>float32\<close> likewise.\<close>

definition double :: "bool \<Rightarrow> int \<Rightarrow> int \<Rightarrow> fl" where
  "double = round_to 53 (- 1074) 1024"

definition float32 :: "bool \<Rightarrow> int \<Rightarrow> int \<Rightarrow> fl" where
  "float32 = round_to 24 (- 149) 128"

definition fl_of_int :: "int \<Rightarrow> fl" where
  "fl_of_int n = double (n < 0) \<bar>n\<bar> 1"

text \<open>The float64 nearest to \<open>\<plusminus> m * 2^e\<close>.\<close>

definition scaled :: "bool \<Rightarrow> int \<Rightarrow> int \<Rightarrow> fl" where
  "scaled s m e = (if 0 \<le> e then double s (m * pow2 e) 1 else double s m (pow2 (- e)))"

fun fmul :: "fl \<Rightarrow> fl \<Rightarrow> fl" where
  "fmul (Fin s1 m1 e1) (Fin s2 m2 e2) = scaled (s1 \<noteq> s2) (m1 * m2) (e1 + e2)"
| "fmul (Fin s1 m1 e1) (Inf s2) = (if m1 = 0 then NaN else Inf (s1 \<noteq> s2))"
| "fmul (Inf s1) (Fin s2 m2 e2) = (if m2 = 0 then NaN else Inf (s1 \<noteq> s2))"
| "fmul (Inf s1) (Inf s2) = Inf (s1 \<noteq> s2)"
| "fmul _ _ = NaN"

text \<open>Division as numpy's float64 scalars do it: a zero divisor gives an infinity or NaN.\<close>

fun fdiv :: "fl \<Rightarrow> fl \<Rightarrow> fl" where
  "fdiv (Fin s1 m1 e1) (Fin s2 m2 e2) =
     (if m2 = 0 then (if m1 = 0 then NaN else Inf (s1 \<noteq> s2))
      else if 0 \<le> e1 - e2 then double (s1 \<noteq> s2) (m1 * pow2 (e1 - e2)) m2
      else double (s1 \<noteq> s2) m1 (m2 * pow2 (e2 - e1)))"
| "fdiv (Fin s1 m1 e1) (Inf s2) = Fin (s1 \<noteq> s2) 0 0"
| "fdiv (Inf s1) (Fin s2 m2 e2) = Inf (s1 \<noteq> s2)"
| "fdiv _ _ = NaN"

text \<open>Addition: the exact sum of the two dyadic values, rounded once.\<close>

fun fadd :: "fl \<Rightarrow> fl \<Rightarrow> fl" where
  "fadd (Fin s1 m1 e1) (Fin s2 m2 e2) =
     (let e = min e1 e2;
          v = (if s1 then - 1 else 1) * m1 * pow2 (e1 - e) + (if s2 then - 1 else 1) * m2 * pow2 (e2 - e)
      in if v = 0 then Fin (s1 \<and> s2) 0 0 else scaled (v < 0) \<bar>v\<bar> e)"
| "fadd (Fin s1 m1 e1) (Inf s2) = Inf s2"
| "fadd (Inf s1) (Fin s2 m2 e2) = Inf s1"
| "fadd (Inf s1) (Inf s2) = (if s1 = s2 then Inf s1 else NaN)"
| "fadd _ _ = NaN"

text \<open>\<open>x > n\<close> and \<open>x == n\<close> for a float \<open>x\<close> and an integer \<open>n\<close>; NaN compares false.\<close>

fun fl_gt_int :: "fl \<Rightarrow> int \<Rightarrow> bool" where
  "fl_gt_int (Fin s m e) n =
     (let v = (if s then - m else m)
      in if 0 \<le> e then n < v * pow2 e else n * pow2 (- e) < v)"
| "fl_gt_int (Inf s) n = (\<not> s)"
| "fl_gt_int NaN n = False"

fun fl_eq_int :: "fl \<Rightarrow> int \<Rightarrow> bool" where
  "fl_eq_int (Fin s m e) n =
     (let v = (if s then - m else m)
      in if 0 \<le> e then n = v * pow2 e else n * pow2 (- e) = v)"
| "fl_eq_int _ n = False"

subsection \<open>Decimal output\<close>

text \<open>\<open>str(n)\<close> for a non-negative integer.\<close>

function show_nat :: "int \<Rightarrow> string" where
  "show_nat n =
     (if n < 10 then [''0123456789'' ! nat n]
      else show_nat (n div 10) @ [''0123456789'' ! nat (n mod 10)])"
  by pat_completeness auto
termination
  by (relation "measure nat") auto

declare show_nat.simps [simp del]

definition zfill :: "nat \<Rightarrow> string \<Rightarrow> string" where
  "zfill w s = replicate (w - length s) (CHR ''0'') @ s"

text \<open>
  \<open>'{:.df}'.format(x)\<close>: the exact binary value of \<open>x\<close> rounded to \<open>d\<close> decimal places
  (correctly rounded, ties to even), a minus sign when the sign bit is set.
\<close>

fun format_f :: "nat \<Rightarrow> fl \<Rightarrow> string" where
  "format_f d NaN = ''nan''"
| "format_f d (Inf s) = (if s then ''-inf'' else ''inf'')"
| "format_f d (Fin s m e) =
     (let n = (if 0 \<le> e then m * pow2 e * 10 ^ d
               else round_half_even (m * 10 ^ d) (pow2 (- e)))
      in (if s then ''-'' else '''') @ show_nat (n div 10 ^ d) @
         (if d = 0 then '''' else ''.'' @ zfill d (show_nat (n mod 10 ^ d))))"

section \<open>Exceptions\<close>

text \<open>
  The Python exceptions that can leave the handler's statements, and the two HTTP errors
  the handler raises itself. An exception the handler does not catch ends the request.
\<close>

datatype exn =
    KeyError string
  | IndexError
  | ValueError
  | TypeError
  | OverflowError
  | UnboundLocalError string
  | OSError
  | OtherError string

datatype error =
    HTTPError nat string
  | CustomHTTPError nat string
  | Uncaught exn

definition bindE :: "error + 'a \<Rightarrow> ('a \<Rightarrow> error + 'b) \<Rightarrow> error + 'b" where
  "bindE m f = (case m of Inl e \<Rightarrow> Inl e | Inr x \<Rightarrow> f x)"

text \<open>Runs \<open>f\<close> on every element in order and stops at the first exception, as a loop body does.\<close>

fun mapE :: "('a \<Rightarrow> error + 'b) \<Rightarrow> 'a list \<Rightarrow> error + 'b list" where
  "mapE f [] = Inr []"
| "mapE f (x # xs) =
     (case f x of
        Inl e \<Rightarrow> Inl e
      | Inr y \<Rightarrow> (case mapE f xs of Inl e \<Rightarrow> Inl e | Inr ys \<Rightarrow> Inr (y # ys)))"

section \<open>Timestamps\<close>

text \<open>
  \<open>datetime.datetime.utcfromtimestamp(t/1.e6).replace(tzinfo=datetime.timezone.utc).isoformat()\<close>.
  The float of seconds is split into whole seconds and a fraction, the fraction is scaled
  to microseconds and rounded half to even; seconds that do not fit the 64-bit \<open>time_t\<close>
  raise \<open>OverflowError\<close>. The calendar date follows the proleptic Gregorian calendar; a
  year that does not fit the C \<open>int\<close> of \<open>tm_year\<close> makes \<open>gmtime\<close> fail with \<open>OSError\<close>,
  and any other year outside 1..9999 raises \<open>ValueError\<close>.
\<close>

text \<open>Whole part (towards zero) of a finite float, as an integer.\<close>

definition fl_trunc :: "bool \<Rightarrow> int \<Rightarrow> int \<Rightarrow> int" where
  "fl_trunc s m e =
     (let a = (if 0 \<le> e then m * pow2 e else m div pow2 (- e)) in if s then - a else a)"

text \<open>Seconds and microseconds of a float timestamp.\<close>

fun timeval :: "fl \<Rightarrow> error + int \<times> int" where
  "timeval NaN = Inl (Uncaught ValueError)"
| "timeval (Inf s) = Inl (Uncaught OverflowError)"
| "timeval (Fin s m e) =
     (let ip = fl_trunc s m e;
          frac = fadd (Fin s m e) (fl_of_int (- ip));
          us = (case fmul frac (double False 1000000 1) of
                  Fin s' m' e' \<Rightarrow>
                    (let r = (if 0 \<le> e' then m' * pow2 e' else round_half_even m' (pow2 (- e')))
                     in if s' then - r else r)
                | _ \<Rightarrow> 0);
          sec = (if 1000000 \<le> us then ip + 1 else if us < 0 then ip - 1 else ip);
          usec = (if 1000000 \<le> us then us - 1000000 else if us < 0 then us + 1000000 else us)
      in if sec < - 9223372036854775808 \<or> 9223372036854775808 \<le> sec
         then Inl (Uncaught OverflowError)
         else Inr (sec, usec))"

text \<open>Year, month and day of a day count since 1970-01-01.\<close>

definition civil_from_days :: "int \<Rightarrow> int \<times> int \<times> int" where
  "civil_from_days z0 =
     (let z = z0 + 719468;
          era = z div 146097;
          doe = z - era * 146097;
          yoe = (doe - doe div 1460 + doe div 36524 - doe div 146096) div 365;
          y = yoe + era * 400;
          doy = doe - (365 * yoe + yoe div 4 - yoe div 100);
          mp = (5 * doy + 2) div 153;
          d = doy - (153 * mp + 2) div 5 + 1;
          mo = (if mp < 10 then mp + 3 else mp - 9)
      in (if mo \<le> 2 then y + 1 else y, mo, d))"

definition pad :: "nat \<Rightarrow> int \<Rightarrow> string" where
  "pad w n = zfill w (show_nat n)"

text \<open>The ISO-8601 text of microsecond \<open>us\<close> of second \<open>sec\<close> since the epoch, in UTC.\<close>

definition isoformat :: "int \<Rightarrow> int \<Rightarrow> error + string" where
  "isoformat sec us =
     (let days = sec div 86400; r = sec mod 86400;
          (y, mo, d) = civil_from_days days
      in if y - 1900 < - 2147483648 \<or> 2147483647 < y - 1900 then Inl (Uncaught OSError)
         else if y < 1 \<or> 9999 < y then Inl (Uncaught ValueError)
         else Inr (pad 4 y @ ''-'' @ pad 2 mo @ ''-'' @ pad 2 d @ ''T'' @
                   pad 2 (r div 3600) @ '':'' @ pad 2 (r mod 3600 div 60) @ '':'' @
                   pad 2 (r mod 60) @
                   (if us = 0 then '''' else ''.'' @ pad 6 us) @ ''+00:00''))"

definition utcfromtimestamp_iso :: "fl \<Rightarrow> error + string" where
  "utcfromtimestamp_iso x = bindE (timeval x) (\<lambda>(sec, us). isoformat sec us)"

section \<open>The parsed log\<close>

text \<open>
  A dataset (\<open>ulog.get_dataset(name).data\<close>) is a dictionary from field names to numpy
  arrays; an array holds integers or floats. \<open>datasets\<close> gives, for a topic name, the
  dataset or the exception the lookup raises. \<open>flight_mode_changes\<close> is the list that
  \<open>helper.get_flight_mode_changes(ulog)\<close> returns (pairs of device timestamp and mode
  code); that helper is not part of this file of the repository, so its result is taken
  as given, and its times are Python integers here. The \<open>timestamp\<close> column of a dataset
  is an array of unsigned 64-bit integers, as the ULog format has it. A float column
  holds the exact values of its elements, of single or double precision; a product or a
  quotient of an element with a Python float is computed here as NumPy computes it for
  an integer or a double precision element, in double precision.
\<close>

datatype column = IntCol "int list" | FloatCol "fl list"

datatype sample = IntS int | FloatS fl

type_synonym dataset = "(string \<times> column) list"

record ulog =
  datasets :: "string \<Rightarrow> exn + dataset"
  initial_parameters :: "string \<rightharpoonup> sample"
  flight_mode_changes :: "(int \<times> int) list"

fun col_len :: "column \<Rightarrow> nat" where
  "col_len (IntCol xs) = length xs"
| "col_len (FloatCol xs) = length xs"

text \<open>\<open>d[key]\<close> and \<open>column[i]\<close> for an index \<open>i \<ge> 0\<close>.\<close>

definition getitem :: "dataset \<Rightarrow> string \<Rightarrow> error + column" where
  "getitem d k = (case map_of d k of None \<Rightarrow> Inl (Uncaught (KeyError k)) | Some c \<Rightarrow> Inr c)"

fun index :: "column \<Rightarrow> nat \<Rightarrow> error + sample" where
  "index (IntCol xs) i = (if i < length xs then Inr (IntS (xs ! i)) else Inl (Uncaught IndexError))"
| "index (FloatCol xs) i = (if i < length xs then Inr (FloatS (xs ! i)) else Inl (Uncaught IndexError))"

definition field :: "dataset \<Rightarrow> string \<Rightarrow> nat \<Rightarrow> error + sample" where
  "field d k i = bindE (getitem d k) (\<lambda>c. index c i)"

text \<open>Reads the named fields of sample \<open>i\<close> in the order given.\<close>

definition read_fields :: "dataset \<Rightarrow> string list \<Rightarrow> nat \<Rightarrow> error + sample list" where
  "read_fields d ks i = mapE (\<lambda>k. field d k i) ks"

fun to_float :: "sample \<Rightarrow> fl" where
  "to_float (IntS n) = fl_of_int n"
| "to_float (FloatS x) = x"

text \<open>\<open>'{:.df}'.format(v)\<close> for a numpy scalar.\<close>

definition fmt :: "nat \<Rightarrow> sample \<Rightarrow> string" where
  "fmt d v = format_f d (to_float v)"

text \<open>\<open>int(v)\<close>.\<close>

fun py_int :: "sample \<Rightarrow> error + int" where
  "py_int (IntS n) = Inr n"
| "py_int (FloatS (Fin s m e)) = Inr (fl_trunc s m e)"
| "py_int (FloatS (Inf s)) = Inl (Uncaught OverflowError)"
| "py_int (FloatS NaN) = Inl (Uncaught ValueError)"

text \<open>
  \<open>v + utc_offset\<close> for an element \<open>v\<close> of a \<open>timestamp\<close> column and the Python integer
  \<open>utc_offset\<close>. The offset is converted to the type of \<open>v\<close>: for the unsigned 64-bit
  \<open>v\<close> an offset outside \<open>0..2^64-1\<close> raises \<open>OverflowError\<close> and the sum wraps around; for
  a float \<open>v\<close> an offset too large for a float raises \<open>OverflowError\<close>.
\<close>

fun add_offset :: "sample \<Rightarrow> int \<Rightarrow> error + sample" where
  "add_offset (IntS n) off =
     (if off < 0 \<or> 18446744073709551616 \<le> off then Inl (Uncaught OverflowError)
      else Inr (IntS ((n + off) mod 18446744073709551616)))"
| "add_offset (FloatS x) off =
     (case fl_of_int off of
        Inf s \<Rightarrow> Inl (Uncaught OverflowError)
      | y \<Rightarrow> Inr (FloatS (fadd x y)))"

text \<open>
  \<open>datetime.datetime.utcfromtimestamp(t/1.e6).replace(tzinfo=datetime.timezone.utc).isoformat()\<close>
\<close>

definition utc_iso :: "sample \<Rightarrow> error + string" where
  "utc_iso t = utcfromtimestamp_iso (fdiv (to_float t) (double False 1000000 1))"

text \<open>The timestamp text of sample \<open>i\<close>: \<open>d['timestamp'][i] + utc_offset\<close>, converted.\<close>

definition stamp :: "dataset \<Rightarrow> int \<Rightarrow> nat \<Rightarrow> error + string" where
  "stamp d off i =
     bindE (field d ''timestamp'' i) (\<lambda>t. bindE (add_offset t off) (\<lambda>t'. utc_iso t'))"

text \<open>\<open>for i in range(len(d['timestamp'])): body\<close>, collecting what each pass appends.\<close>

definition rows :: "dataset \<Rightarrow> (nat \<Rightarrow> error + 'a) \<Rightarrow> error + 'a list" where
  "rows d body = bindE (getitem d ''timestamp'') (\<lambda>ts. mapE body [0..<col_len ts])"

section \<open>Serialised records\<close>

text \<open>
  A record of a series is its timestamp text and its formatted numbers; the page gets
  the text \<open>["timestamp", n1, n2, ...], \<close> of every record between \<open>[ \<close> and \<open> ]\<close>.
\<close>

type_synonym rec = "string \<times> string list"

definition fmt_record :: "rec \<Rightarrow> string" where
  \<open>fmt_record r = ''["'' @ fst r @ ''"'' @ concat (map (\<lambda>f. '', '' @ f) (snd r)) @ ''], ''\<close>

definition series_str :: "rec list \<Rightarrow> string" where
  "series_str rs = ''[ '' @ concat (map fmt_record rs) @ '' ]''"

section \<open>Takeoff location and UTC offset\<close>

fun col_gt :: "column \<Rightarrow> int \<Rightarrow> bool list" where
  "col_gt (IntCol xs) n = map (\<lambda>x. n < x) xs"
| "col_gt (FloatCol xs) n = map (\<lambda>x. fl_gt_int x n) xs"

text \<open>\<open>np.nonzero(bs)[0]\<close>: the indices of the true entries, ascending.\<close>

definition nonzero :: "bool list \<Rightarrow> nat list" where
  "nonzero bs = filter (\<lambda>i. bs ! i) [0..<length bs]"

definition takeoff_index :: "column \<Rightarrow> nat" where
  "takeoff_index fix_type =
     (let gps_indices = nonzero (col_gt fix_type 2)
      in if 0 < length gps_indices then gps_indices ! 0 else 0)"

definition takeoff_altitude_str :: "dataset \<Rightarrow> nat \<Rightarrow> error + string" where
  "takeoff_altitude_str gps_pos i =
     bindE (field gps_pos ''alt'' i) (\<lambda>v. Inr (format_f 3 (fmul (to_float v) (double False 1 1000))))"

definition takeoff_latitude_str :: "dataset \<Rightarrow> nat \<Rightarrow> error + string" where
  "takeoff_latitude_str gps_pos i =
     bindE (field gps_pos ''lat'' i) (\<lambda>v. Inr (format_f 10 (fmul (to_float v) (double False 1 10000000))))"

definition takeoff_longitude_str :: "dataset \<Rightarrow> nat \<Rightarrow> error + string" where
  "takeoff_longitude_str gps_pos i =
     bindE (field gps_pos ''lon'' i) (\<lambda>v. Inr (format_f 10 (fmul (to_float v) (double False 1 10000000))))"

definition utc_offset :: "dataset \<Rightarrow> nat \<Rightarrow> error + int" where
  "utc_offset gps_pos i =
     bindE (field gps_pos ''time_utc_usec'' i) (\<lambda>a. bindE (py_int a) (\<lambda>utc.
     bindE (field gps_pos ''timestamp'' i) (\<lambda>b. bindE (py_int b) (\<lambda>dev.
     Inr (utc - dev)))))"

section \<open>Flight modes\<close>

text \<open>
  \<open>flight_modes_table\<close> of the helper module maps a mode code to a name and a colour; it is
  not part of this file of the repository and is a parameter here. The loop converts the
  time of every mode change and looks the mode up; the text it appends holds the
  timestamp and the mode name.
\<close>

definition flight_mode_label :: "(int \<rightharpoonup> string \<times> string) \<Rightarrow> int \<Rightarrow> string \<times> string" where
  "flight_mode_label flight_modes_table mode =
     (case flight_modes_table mode of
        Some (mode_name, color) \<Rightarrow> (mode_name, color)
      | None \<Rightarrow> ('''', ''#ffffff''))"

definition flight_mode_record ::
  "(int \<rightharpoonup> string \<times> string) \<Rightarrow> int \<Rightarrow> int \<times> int \<Rightarrow> error + string" where
  \<open>flight_mode_record flight_modes_table off = (\<lambda>(t, mode).
     bindE (utc_iso (IntS (t + off))) (\<lambda>utctimestamp.
       (case flight_mode_label flight_modes_table mode of
          (mode_name, color) \<Rightarrow> Inr (''["'' @ utctimestamp @ ''", "'' @ mode_name @ ''"], ''))))\<close>

definition flight_modes_str ::
  "(int \<rightharpoonup> string \<times> string) \<Rightarrow> int \<Rightarrow> (int \<times> int) list \<Rightarrow> error + string" where
  "flight_modes_str flight_modes_table off changes =
     bindE (mapE (flight_mode_record flight_modes_table off) changes)
       (\<lambda>rs. Inr (''[ '' @ concat rs @ '' ]''))"

section \<open>The series\<close>

text \<open>Manual control setpoints: \<open>x, y, z, r\<close> at three decimals.\<close>

definition manual_control_setpoint_row :: "int \<Rightarrow> dataset \<Rightarrow> nat \<Rightarrow> error + rec" where
  "manual_control_setpoint_row off d i =
     bindE (read_fields d [''x'', ''y'', ''z'', ''r''] i) (\<lambda>vs.
     bindE (stamp d off i) (\<lambda>utctimestamp.
     Inr (utctimestamp, map (fmt 3) vs)))"

text \<open>Position from the GPS samples; also the first and the last timestamp of the loop.\<close>

definition position_row :: "int \<Rightarrow> dataset \<Rightarrow> nat \<Rightarrow> error + rec" where
  "position_row off gps_pos i =
     bindE (field gps_pos ''lon'' i) (\<lambda>lon0.
     bindE (field gps_pos ''lat'' i) (\<lambda>lat0.
     bindE (field gps_pos ''alt'' i) (\<lambda>alt0.
     bindE (stamp gps_pos off i) (\<lambda>utctimestamp.
       (let lon = fmul (to_float lon0) (double False 1 10000000);
            lat = fmul (to_float lat0) (double False 1 10000000);
            alt = fmul (to_float alt0) (double False 1 1000)
        in Inr (utctimestamp, [format_f 10 lon, format_f 10 lat, format_f 3 alt]))))))"

text \<open>
  \<open>start_timestamp\<close> and \<open>end_timestamp\<close> are assigned inside the position loop only; with
  no GPS sample the later read of \<open>start_timestamp\<close> fails.
\<close>

definition start_end_timestamps :: "rec list \<Rightarrow> error + string \<times> string" where
  \<open>start_end_timestamps rs =
     (if rs = [] then Inl (Uncaught (UnboundLocalError ''start_timestamp''))
      else Inr (''"'' @ fst (hd rs) @ ''"'', ''"'' @ fst (last rs) @ ''"''))\<close>

definition boot_timestamp_str :: "int \<Rightarrow> error + string" where
  \<open>boot_timestamp_str off = bindE (utc_iso (IntS off)) (\<lambda>s. Inr (''"'' @ s @ ''"''))\<close>

text \<open>
  Attitude: the quaternion is stored as \<open>q[0..3] = w, x, y, z\<close> and written as
  \<open>x, y, z, w\<close>, followed by the three angular speeds.
\<close>

definition attitude_row :: "int \<Rightarrow> dataset \<Rightarrow> nat \<Rightarrow> error + rec" where
  "attitude_row off attitude i =
     bindE (field attitude ''q[0]'' i) (\<lambda>att_qw.
     bindE (field attitude ''q[1]'' i) (\<lambda>att_qx.
     bindE (field attitude ''q[2]'' i) (\<lambda>att_qy.
     bindE (field attitude ''q[3]'' i) (\<lambda>att_qz.
     bindE (field attitude ''rollspeed'' i) (\<lambda>rollSpeed.
     bindE (field attitude ''pitchspeed'' i) (\<lambda>pitchSpeed.
     bindE (field attitude ''yawspeed'' i) (\<lambda>yawSpeed.
     bindE (stamp attitude off i) (\<lambda>utctimestamp.
     Inr (utctimestamp,
          map (fmt 6) [att_qx, att_qy, att_qz, att_qw, rollSpeed, pitchSpeed, yawSpeed])))))))))"

definition vehicle_rates_setpoint_row :: "int \<Rightarrow> dataset \<Rightarrow> nat \<Rightarrow> error + rec" where
  "vehicle_rates_setpoint_row off d i =
     bindE (read_fields d [''roll'', ''pitch'', ''yaw''] i) (\<lambda>vs.
     bindE (stamp d off i) (\<lambda>utctimestamp.
     Inr (utctimestamp, map (fmt 6) vs)))"

definition sensor_combined_row :: "int \<Rightarrow> dataset \<Rightarrow> nat \<Rightarrow> error + rec" where
  "sensor_combined_row off d i =
     bindE (read_fields d [''gyro_rad[0]'', ''gyro_rad[1]'', ''gyro_rad[2]'',
                      ''accelerometer_m_s2[0]'', ''accelerometer_m_s2[1]'',
                      ''accelerometer_m_s2[2]''] i) (\<lambda>vs.
     bindE (stamp d off i) (\<lambda>utctimestamp.
     Inr (utctimestamp, map (fmt 6) vs)))"

definition vehicle_attitude_setpoint_row :: "int \<Rightarrow> dataset \<Rightarrow> nat \<Rightarrow> error + rec" where
  "vehicle_attitude_setpoint_row off d i =
     bindE (read_fields d [''roll_body'', ''pitch_body'', ''yaw_body''] i) (\<lambda>vs.
     bindE (stamp d off i) (\<lambda>utctimestamp.
     Inr (utctimestamp, map (fmt 6) vs)))"

text \<open>Local position and its setpoint read the same six fields.\<close>

definition vehicle_local_position_row :: "int \<Rightarrow> dataset \<Rightarrow> nat \<Rightarrow> error + rec" where
  "vehicle_local_position_row off d i =
     bindE (read_fields d [''x'', ''y'', ''z'', ''vx'', ''vy'', ''vz''] i) (\<lambda>vs.
     bindE (stamp d off i) (\<lambda>utctimestamp.
     Inr (utctimestamp, map (fmt 6) vs)))"

definition actuator_controls_0_row :: "int \<Rightarrow> dataset \<Rightarrow> nat \<Rightarrow> error + rec" where
  "actuator_controls_0_row off d i =
     bindE (read_fields d [''control[0]'', ''control[1]'', ''control[2]'', ''control[3]''] i) (\<lambda>vs.
     bindE (stamp d off i) (\<lambda>utctimestamp.
     Inr (utctimestamp, map (fmt 6) vs)))"

subsection \<open>Actuator outputs\<close>

text \<open>
  \<open>np.amax\<close> raises on an empty array and returns NaN when a float array holds one.
\<close>

fun fl_less :: "fl \<Rightarrow> fl \<Rightarrow> bool" where
  "fl_less (Fin s1 m1 e1) (Fin s2 m2 e2) =
     (let e = min e1 e2
      in (if s1 then - m1 else m1) * pow2 (e1 - e) < (if s2 then - m2 else m2) * pow2 (e2 - e))"
| "fl_less (Fin s1 m1 e1) (Inf s2) = (\<not> s2)"
| "fl_less (Inf s1) (Fin s2 m2 e2) = s1"
| "fl_less (Inf s1) (Inf s2) = (s1 \<and> \<not> s2)"
| "fl_less _ _ = False"

definition fl_max :: "fl \<Rightarrow> fl \<Rightarrow> fl" where
  "fl_max a b = (if a = NaN \<or> b = NaN then NaN else if fl_less a b then b else a)"

fun amax :: "column \<Rightarrow> error + sample" where
  "amax (IntCol []) = Inl (Uncaught ValueError)"
| "amax (IntCol (x # xs)) = Inr (IntS (fold max xs x))"
| "amax (FloatCol []) = Inl (Uncaught ValueError)"
| "amax (FloatCol (x # xs)) = Inr (FloatS (fold fl_max xs x))"

text \<open>\<open>v < n\<close> for a numpy scalar and an integer.\<close>

fun sample_lt_int :: "sample \<Rightarrow> int \<Rightarrow> bool" where
  "sample_lt_int (IntS k) n = (k < n)"
| "sample_lt_int (FloatS x) n = fl_less x (fl_of_int n)"

text \<open>\<open>range(v)\<close>: an integer scalar is accepted, a float is refused.\<close>

fun py_range :: "sample \<Rightarrow> error + nat list" where
  "py_range (IntS n) = Inr [0..<nat n]"
| "py_range (FloatS x) = Inl (Uncaught TypeError)"

text \<open>
  One pass of the loop over the samples: the timestamp first, then one channel
  \<open>output[x]\<close> for every \<open>x\<close> in \<open>range(max_outputs)\<close>.
\<close>

definition actuator_outputs_row :: "sample \<Rightarrow> int \<Rightarrow> dataset \<Rightarrow> nat \<Rightarrow> error + rec" where
  "actuator_outputs_row max_outputs off actuator_outputs i =
     bindE (stamp actuator_outputs off i) (\<lambda>utctimestamp.
     bindE (py_range max_outputs) (\<lambda>xs.
     bindE (mapE (\<lambda>x. field actuator_outputs (''output['' @ show_nat (int x) @ '']'') i) xs) (\<lambda>vs.
     Inr (utctimestamp, map (fmt 6) vs))))"

text \<open>
  The source sets \<open>num_actuator_outputs\<close> to 8, lowers it to \<open>max_outputs\<close> when that is
  smaller, and then runs the channel loop over \<open>range(max_outputs)\<close>.
\<close>

definition actuator_outputs_records :: "int \<Rightarrow> dataset \<Rightarrow> error + rec list" where
  "actuator_outputs_records off actuator_outputs =
     bindE (getitem actuator_outputs ''noutputs'') (\<lambda>noutputs.
     bindE (amax noutputs) (\<lambda>max_outputs.
       (let num_actuator_outputs = (if sample_lt_int max_outputs 8 then max_outputs else IntS 8)
        in rows actuator_outputs (actuator_outputs_row max_outputs off actuator_outputs))))"

subsection \<open>The series by name\<close>

datatype series =
    ManualControlSetpoint
  | Position
  | Attitude
  | VehicleRatesSetpoint
  | SensorCombined
  | VehicleAttitudeSetpoint
  | VehicleLocalPosition
  | VehicleLocalPositionSetpoint
  | ActuatorOutputs
  | ActuatorControls0

text \<open>The records the loop of each series produces for a dataset that is present.\<close>

fun series_records :: "series \<Rightarrow> int \<Rightarrow> dataset \<Rightarrow> error + rec list" where
  "series_records ManualControlSetpoint off d = rows d (manual_control_setpoint_row off d)"
| "series_records Position off d = rows d (position_row off d)"
| "series_records Attitude off d = rows d (attitude_row off d)"
| "series_records VehicleRatesSetpoint off d = rows d (vehicle_rates_setpoint_row off d)"
| "series_records SensorCombined off d = rows d (sensor_combined_row off d)"
| "series_records VehicleAttitudeSetpoint off d = rows d (vehicle_attitude_setpoint_row off d)"
| "series_records VehicleLocalPosition off d = rows d (vehicle_local_position_row off d)"
| "series_records VehicleLocalPositionSetpoint off d = rows d (vehicle_local_position_row off d)"
| "series_records ActuatorOutputs off d = actuator_outputs_records off d"
| "series_records ActuatorControls0 off d = rows d (actuator_controls_0_row off d)"

text \<open>
  An optional series is serialised when its dataset \<open>is not None\<close>; the manual control
  setpoints are serialised when the dataset is truthy (a non-empty dictionary).
\<close>

definition truthy :: "dataset option \<Rightarrow> bool" where
  "truthy d = (case d of None \<Rightarrow> False | Some x \<Rightarrow> x \<noteq> [])"

definition manual_control_setpoints_str :: "int \<Rightarrow> dataset option \<Rightarrow> error + string" where
  "manual_control_setpoints_str off manual_control_setpoint =
     (case manual_control_setpoint of
        None \<Rightarrow> Inr (series_str [])
      | Some d \<Rightarrow>
          if truthy manual_control_setpoint
          then bindE (series_records ManualControlSetpoint off d) (\<lambda>rs. Inr (series_str rs))
          else Inr (series_str []))"

definition optional_series_str :: "series \<Rightarrow> int \<Rightarrow> dataset option \<Rightarrow> error + string" where
  "optional_series_str k off d =
     (case d of
        None \<Rightarrow> Inr (series_str [])
      | Some x \<Rightarrow> bindE (series_records k off x) (\<lambda>rs. Inr (series_str rs)))"

section \<open>Vehicle model\<close>

text \<open>\<open>mav_type == n\<close> for the value of \<open>initial_parameters.get('MAV_TYPE', None)\<close>.\<close>

fun mav_type_eq :: "sample option \<Rightarrow> int \<Rightarrow> bool" where
  "mav_type_eq None n = False"
| "mav_type_eq (Some (IntS k)) n = (k = n)"
| "mav_type_eq (Some (FloatS x)) n = fl_eq_int x n"

definition cesium_air :: string where
  "cesium_air = ''plot_app/static/cesium/SampleData/models/CesiumAir/Cesium_Air.glb''"

definition iris :: string where
  "iris = ''plot_app/static/cesium/models/iris/iris.glb''"

text \<open>The pair \<open>(model_scale_factor, model_uri)\<close>; the scale is the float 0.06 or the integer 1.\<close>

definition select_model :: "sample option \<Rightarrow> sample \<times> string" where
  "select_model mav_type =
     (if mav_type_eq mav_type 1 then (FloatS (double False 6 100), cesium_air)
      else if mav_type_eq mav_type 2 then (IntS 1, iris)
      else if mav_type_eq mav_type 22 then (FloatS (double False 6 100), cesium_air)
      else (IntS 1, iris))"

section \<open>The request\<close>

text \<open>What the handler hands to the page template.\<close>

record page =
  flight_modes :: string
  manual_control_setpoints :: string
  takeoff_altitude :: string
  takeoff_longitude :: string
  takeoff_latitude :: string
  position_data :: string
  start_timestamp :: string
  boot_timestamp :: string
  end_timestamp :: string
  attitude_data :: string
  vehicle_attitude_setpoint_data :: string
  vehicle_local_position_data :: string
  vehicle_local_position_setpoint_data :: string
  actuator_outputs_data :: string
  vehicle_rates_setpoint_data :: string
  sensor_combined_data :: string
  actuator_controls_0_data :: string
  model_scale_factor :: sample
  model_uri :: string

text \<open>The optional datasets, \<open>None\<close> when the lookup failed.\<close>

record optionals =
  manual_control_setpoint :: "dataset option"
  vehicle_local_position :: "dataset option"
  vehicle_local_position_setpoint :: "dataset option"
  vehicle_attitude_setpoint :: "dataset option"
  vehicle_rates_setpoint :: "dataset option"
  actuator_outputs :: "dataset option"
  sensor_combined :: "dataset option"
  actuator_controls_0 :: "dataset option"

definition required_topics_message :: string where
  "required_topics_message =
     ''The log does not contain all required topics<br />'' @
     ''(vehicle_gps_position, vehicle_global_position, '' @
     ''vehicle_attitude)''"

text \<open>\<open>except (KeyError, IndexError, ValueError)\<close>.\<close>

fun caught :: "exn \<Rightarrow> bool" where
  "caught (KeyError k) = True"
| "caught IndexError = True"
| "caught ValueError = True"
| "caught _ = False"

definition required :: "ulog \<Rightarrow> string \<Rightarrow> error + dataset" where
  "required u name =
     (case datasets u name of
        Inr d \<Rightarrow> Inr d
      | Inl x \<Rightarrow> if caught x then Inl (CustomHTTPError 400 required_topics_message)
                 else Inl (Uncaught x))"

definition optional :: "ulog \<Rightarrow> string \<Rightarrow> error + dataset option" where
  "optional u name =
     (case datasets u name of
        Inr d \<Rightarrow> Inr (Some d)
      | Inl x \<Rightarrow> if caught x then Inr None else Inl (Uncaught x))"

definition load_optionals :: "ulog \<Rightarrow> error + optionals" where
  "load_optionals u =
     bindE (optional u ''manual_control_setpoint'') (\<lambda>mcs.
     bindE (optional u ''vehicle_local_position'') (\<lambda>vlp.
     bindE (optional u ''vehicle_local_position_setpoint'') (\<lambda>vlps.
     bindE (optional u ''vehicle_attitude_setpoint'') (\<lambda>vas.
     bindE (optional u ''vehicle_rates_setpoint'') (\<lambda>vrs.
     bindE (optional u ''actuator_outputs'') (\<lambda>ao.
     bindE (optional u ''sensor_combined'') (\<lambda>sc.
     bindE (optional u ''actuator_controls_0'') (\<lambda>ac0.
     Inr \<lparr> manual_control_setpoint = mcs, vehicle_local_position = vlp,
           vehicle_local_position_setpoint = vlps, vehicle_attitude_setpoint = vas,
           vehicle_rates_setpoint = vrs, actuator_outputs = ao,
           sensor_combined = sc, actuator_controls_0 = ac0 \<rparr>))))))))"

text \<open>Everything after the lookups, in the order of the source.\<close>

definition serialize ::
  "(int \<rightharpoonup> string \<times> string) \<Rightarrow> ulog \<Rightarrow> dataset \<Rightarrow> dataset \<Rightarrow> optionals \<Rightarrow> error + page" where
  "serialize flight_modes_table u gps_pos attitude opt =
     bindE (getitem gps_pos ''fix_type'') (\<lambda>fix_type.
     bindE (takeoff_altitude_str gps_pos (takeoff_index fix_type)) (\<lambda>t_alt.
     bindE (takeoff_latitude_str gps_pos (takeoff_index fix_type)) (\<lambda>t_lat.
     bindE (takeoff_longitude_str gps_pos (takeoff_index fix_type)) (\<lambda>t_lon.
     bindE (utc_offset gps_pos (takeoff_index fix_type)) (\<lambda>off.
     bindE (flight_modes_str flight_modes_table off (flight_mode_changes u)) (\<lambda>fm.
     bindE (manual_control_setpoints_str off (manual_control_setpoint opt)) (\<lambda>mcs.
     bindE (series_records Position off gps_pos) (\<lambda>pos.
     bindE (start_end_timestamps pos) (\<lambda>(start_ts, end_ts).
     bindE (boot_timestamp_str off) (\<lambda>boot_ts.
     bindE (series_records Attitude off attitude) (\<lambda>att.
     bindE (optional_series_str VehicleRatesSetpoint off (vehicle_rates_setpoint opt)) (\<lambda>vrs.
     bindE (optional_series_str SensorCombined off (sensor_combined opt)) (\<lambda>sc.
     bindE (optional_series_str VehicleAttitudeSetpoint off (vehicle_attitude_setpoint opt)) (\<lambda>vas.
     bindE (optional_series_str VehicleLocalPosition off (vehicle_local_position opt)) (\<lambda>vlp.
     bindE (optional_series_str VehicleLocalPositionSetpoint off
              (vehicle_local_position_setpoint opt)) (\<lambda>vlps.
     bindE (optional_series_str ActuatorOutputs off (actuator_outputs opt)) (\<lambda>ao.
     bindE (optional_series_str ActuatorControls0 off (actuator_controls_0 opt)) (\<lambda>ac0.
     Inr \<lparr> flight_modes = fm, manual_control_setpoints = mcs,
           takeoff_altitude = t_alt, takeoff_longitude = t_lon, takeoff_latitude = t_lat,
           position_data = series_str pos,
           start_timestamp = start_ts, boot_timestamp = boot_ts, end_timestamp = end_ts,
           attitude_data = series_str att,
           vehicle_attitude_setpoint_data = vas,
           vehicle_local_position_data = vlp,
           vehicle_local_position_setpoint_data = vlps,
           actuator_outputs_data = ao,
           vehicle_rates_setpoint_data = vrs,
           sensor_combined_data = sc,
           actuator_controls_0_data = ac0,
           model_scale_factor = fst (select_model (initial_parameters u ''MAV_TYPE'')),
           model_uri = snd (select_model (initial_parameters u ''MAV_TYPE'')) \<rparr>
     ))))))))))))))))))"

text \<open>
  The GET callback from the loaded log on; \<open>valid\<close> is the outcome of
  \<open>validate_log_id(log_id)\<close>.
\<close>

definition get :: "(int \<rightharpoonup> string \<times> string) \<Rightarrow> bool \<Rightarrow> ulog \<Rightarrow> error + page" where
  "get flight_modes_table valid u =
     (if \<not> valid then Inl (HTTPError 400 ''Invalid Parameter'')
      else
        bindE (required u ''vehicle_gps_position'') (\<lambda>gps_pos.
        bindE (required u ''vehicle_global_position'') (\<lambda>vehicle_global_position.
        bindE (required u ''vehicle_attitude'') (\<lambda>attitude.
        bindE (load_optionals u) (\<lambda>opt.
        serialize flight_modes_table u gps_pos attitude opt)))))"

section \<open>An example log\<close>

text \<open>
  Two GPS samples, the second with a 3D fix; one attitude sample whose quaternion is
  stored as float32; one actuator sample of a board that reports sixteen outputs.
\<close>

definition ex_gps :: dataset where
  "ex_gps =
     [(''timestamp'', IntCol [1000000, 2000000]),
      (''time_utc_usec'', IntCol [1600000000123456, 1600000001123456]),
      (''fix_type'', IntCol [2, 3]),
      (''lon'', IntCol [473977410, 473977420]),
      (''lat'', IntCol [85455930, 85455940]),
      (''alt'', IntCol [1400, 1500])]"

definition ex_attitude :: dataset where
  "ex_attitude =
     [(''timestamp'', IntCol [2000000]),
      (''q[0]'', FloatCol [float32 False 7 10]),
      (''q[1]'', FloatCol [float32 False 1 10]),
      (''q[2]'', FloatCol [float32 False 2 10]),
      (''q[3]'', FloatCol [float32 False 68 100]),
      (''rollspeed'', FloatCol [float32 True 1 100]),
      (''pitchspeed'', FloatCol [float32 False 0 1]),
      (''yawspeed'', FloatCol [float32 False 5 4])]"

definition ex_actuator_outputs :: dataset where
  "ex_actuator_outputs =
     (''timestamp'', IntCol [2000000]) # (''noutputs'', IntCol [16]) #
     map (\<lambda>x. (''output['' @ show_nat (int x) @ '']'', FloatCol [float32 False (1000 + int x) 1]))
       [0..<16]"

definition ex_manual :: dataset where
  "ex_manual =
     [(''timestamp'', IntCol [1500000]),
      (''x'', FloatCol [float32 False 1 2]),
      (''y'', FloatCol [float32 True 1 4]),
      (''z'', FloatCol [float32 False 3 5]),
      (''r'', FloatCol [float32 False 0 1])]"

text \<open>
  A table with one mode, and a log with the three required topics, manual control and
  actuator outputs; the other topics are missing. The second mode change has a code the
  table does not hold.
\<close>

definition ex_tbl :: "int \<rightharpoonup> string \<times> string" where
  "ex_tbl = (\<lambda>mode. if mode = 2 then Some (''Position'', ''#1f77b4'') else None)"

definition ex_log :: ulog where
  "ex_log =
     \<lparr> datasets = (\<lambda>name.
         if name = ''vehicle_gps_position'' then Inr ex_gps
         else if name = ''vehicle_global_position'' then Inr []
         else if name = ''vehicle_attitude'' then Inr ex_attitude
         else if name = ''manual_control_setpoint'' then Inr ex_manual
         else if name = ''actuator_outputs'' then Inr ex_actuator_outputs
         else Inl IndexError),
       initial_parameters = (\<lambda>name. if name = ''MAV_TYPE'' then Some (IntS 2) else None),
       flight_mode_changes = [(1000000, 2), (2000000, - 1)] \<rparr>"

text \<open>The page of the example log.\<close>

definition ex_page :: page where
  \<open>ex_page =
     \<lparr> flight_modes =
         ''[ ["2020-09-13T12:26:40.123456+00:00", "Position"], '' @
         ''["2020-09-13T12:26:41.123456+00:00", ""],  ]'',
       manual_control_setpoints =
         ''[ ["2020-09-13T12:26:40.623456+00:00", 0.500, -0.250, 0.600, 0.000],  ]'',
       takeoff_altitude = ''1.500'',
       takeoff_longitude = ''47.3977420000'',
       takeoff_latitude = ''8.5455940000'',
       position_data =
         ''[ ["2020-09-13T12:26:40.123456+00:00", 47.3977410000, 8.5455930000, 1.400], '' @
         ''["2020-09-13T12:26:41.123456+00:00", 47.3977420000, 8.5455940000, 1.500],  ]'',
       start_timestamp = ''"2020-09-13T12:26:40.123456+00:00"'',
       boot_timestamp = ''"2020-09-13T12:26:39.123456+00:00"'',
       end_timestamp = ''"2020-09-13T12:26:41.123456+00:00"'',
       attitude_data =
         ''[ ["2020-09-13T12:26:41.123456+00:00", 0.100000, 0.200000, 0.680000, '' @
         ''0.700000, -0.010000, 0.000000, 1.250000],  ]'',
       vehicle_attitude_setpoint_data = ''[  ]'',
       vehicle_local_position_data = ''[  ]'',
       vehicle_local_position_setpoint_data = ''[  ]'',
       actuator_outputs_data =
         ''[ ["2020-09-13T12:26:41.123456+00:00", 1000.000000, 1001.000000, '' @
         ''1002.000000, 1003.000000, 1004.000000, 1005.000000, 1006.000000, '' @
         ''1007.000000, 1008.000000, 1009.000000, 1010.000000, 1011.000000, '' @
         ''1012.000000, 1013.000000, 1014.000000, 1015.000000],  ]'',
       vehicle_rates_setpoint_data = ''[  ]'',
       sensor_combined_data = ''[  ]'',
       actuator_controls_0_data = ''[  ]'',
       model_scale_factor = IntS 1,
       model_uri = ''plot_app/static/cesium/models/iris/iris.glb'' \<rparr>\<close>

section \<open>Topics and page arguments of the series\<close>

text \<open>
  The name each series is looked up by with \<open>ulog.get_dataset\<close>, and the argument of
  \<open>template.render\<close> its text is handed to.
\<close>

fun topic :: "series \<Rightarrow> string" where
  "topic ManualControlSetpoint = ''manual_control_setpoint''"
| "topic Position = ''vehicle_gps_position''"
| "topic Attitude = ''vehicle_attitude''"
| "topic VehicleRatesSetpoint = ''vehicle_rates_setpoint''"
| "topic SensorCombined = ''sensor_combined''"
| "topic VehicleAttitudeSetpoint = ''vehicle_attitude_setpoint''"
| "topic VehicleLocalPosition = ''vehicle_local_position''"
| "topic VehicleLocalPositionSetpoint = ''vehicle_local_position_setpoint''"
| "topic ActuatorOutputs = ''actuator_outputs''"
| "topic ActuatorControls0 = ''actuator_controls_0''"

fun page_series :: "series \<Rightarrow> page \<Rightarrow> string" where
  "page_series ManualControlSetpoint p = manual_control_setpoints p"
| "page_series Position p = position_data p"
| "page_series Attitude p = attitude_data p"
| "page_series VehicleRatesSetpoint p = vehicle_rates_setpoint_data p"
| "page_series SensorCombined p = sensor_combined_data p"
| "page_series VehicleAttitudeSetpoint p = vehicle_attitude_setpoint_data p"
| "page_series VehicleLocalPosition p = vehicle_local_position_data p"
| "page_series VehicleLocalPositionSetpoint p = vehicle_local_position_setpoint_data p"
| "page_series ActuatorOutputs p = actuator_outputs_data p"
| "page_series ActuatorControls0 p = actuator_controls_0_data p"

text \<open>The series whose lookup sits in a \<open>try\<close> block of its own.\<close>

fun is_optional :: "series \<Rightarrow> bool" where
  "is_optional Position = False"
| "is_optional Attitude = False"
| "is_optional _ = True"

text \<open>
  The log in which the lookup of the topic of \<open>k\<close> raises \<open>e\<close>, and the page in which the
  text of \<open>k\<close> is the empty series.
\<close>

definition absent :: "exn \<Rightarrow> series \<Rightarrow> ulog \<Rightarrow> ulog" where
  "absent e k u = u \<lparr> datasets := (datasets u) (topic k := Inl e) \<rparr>"

fun emptied :: "series \<Rightarrow> page \<Rightarrow> page" where
  "emptied ManualControlSetpoint p = p \<lparr> manual_control_setpoints := ''[  ]'' \<rparr>"
| "emptied Position p = p"
| "emptied Attitude p = p"
| "emptied VehicleRatesSetpoint p = p \<lparr> vehicle_rates_setpoint_data := ''[  ]'' \<rparr>"
| "emptied SensorCombined p = p \<lparr> sensor_combined_data := ''[  ]'' \<rparr>"
| "emptied VehicleAttitudeSetpoint p = p \<lparr> vehicle_attitude_setpoint_data := ''[  ]'' \<rparr>"
| "emptied VehicleLocalPosition p = p \<lparr> vehicle_local_position_data := ''[  ]'' \<rparr>"
| "emptied VehicleLocalPositionSetpoint p =
     p \<lparr> vehicle_local_position_setpoint_data := ''[  ]'' \<rparr>"
| "emptied ActuatorOutputs p = p \<lparr> actuator_outputs_data := ''[  ]'' \<rparr>"
| "emptied ActuatorControls0 p = p \<lparr> actuator_controls_0_data := ''[  ]'' \<rparr>"


section \<open>Properties\<close>

subsection \<open>Takeoff index\<close>

lemma filter_upt_first:
  assumes "i < n" "P i" "\<forall>j<i. \<not> P j"
  shows "filter P [0..<n] = i # filter P [Suc i..<n]"
proof -
  have "[0..<n] = [0..<i] @ i # [Suc i..<n]"
    using assms(1) by (metis less_imp_add_positive upt_add_eq_append upt_conv_Cons zero_le le_add1 add_0 trans_less_add1)
  moreover have "filter P [0..<i] = []"
    using assms(3) by (simp add: filter_empty_conv)
  ultimately show ?thesis using assms(2) by simp
qed

lemma nonzero_first:
  assumes "i < length bs" "bs ! i" "\<forall>j<i. \<not> bs ! j"
  shows "nonzero bs = i # filter (\<lambda>i. bs ! i) [Suc i..<length bs]"
  unfolding nonzero_def using assms by (rule filter_upt_first)

lemma nonzero_none:
  assumes "\<forall>j<length bs. \<not> bs ! j"
  shows "nonzero bs = []"
  unfolding nonzero_def using assms by (simp add: filter_empty_conv)

text \<open>
  Claim C4. The takeoff index is the index of the first GPS sample whose \<open>fix_type\<close> is
  strictly greater than 2, and 0 when no sample exceeds 2; for \<open>[1,2,3,4]\<close> it is 2.
\<close>

theorem takeoff_index_first_fix:
  "(\<forall>fx i. i < length fx \<and> 2 < fx ! i \<and> (\<forall>j<i. fx ! j \<le> 2)
      \<longrightarrow> takeoff_index (IntCol fx) = i)
   \<and> (\<forall>fx. (\<forall>j<length fx. fx ! j \<le> 2) \<longrightarrow> takeoff_index (IntCol fx) = 0)
   \<and> takeoff_index (IntCol [1, 2, 3, 4]) = 2"
proof (intro conjI allI impI)
  fix fx :: "int list" and i
  assume a: "i < length fx \<and> 2 < fx ! i \<and> (\<forall>j<i. fx ! j \<le> 2)"
  let ?bs = "col_gt (IntCol fx) 2"
  have "i < length ?bs" "?bs ! i" "\<forall>j<i. \<not> ?bs ! j"
    using a by (auto simp: not_less)
  then have "nonzero ?bs = i # filter (\<lambda>i. ?bs ! i) [Suc i..<length ?bs]"
    by (rule nonzero_first)
  then show "takeoff_index (IntCol fx) = i"
    by (simp add: takeoff_index_def)
next
  fix fx :: "int list"
  assume a: "\<forall>j<length fx. fx ! j \<le> 2"
  have "nonzero (col_gt (IntCol fx) 2) = []"
    by (rule nonzero_none) (use a in \<open>auto simp: not_less\<close>)
  then show "takeoff_index (IntCol fx) = 0"
    by (simp add: takeoff_index_def)
next
  show "takeoff_index (IntCol [1, 2, 3, 4]) = 2"
    by code_simp
qed

theorem takeoff_index_first_fix_witness:
  "takeoff_index (IntCol [0, 1, 3, 2, 5]) = 2 \<and> takeoff_index (IntCol [2, 1, 0]) = 0"
proof -
  have a: "(2::nat) < length [0, 1, 3, 2, 5::int] \<and> 2 < [0, 1, 3, 2, 5::int] ! 2
      \<and> (\<forall>j<2. [0, 1, 3, 2, 5::int] ! j \<le> 2)"
    by (simp add: less_Suc_eq numeral_2_eq_2)
  have b: "\<forall>j<length [2, 1, 0::int]. [2, 1, 0::int] ! j \<le> 2"
    by (simp add: less_Suc_eq numeral_3_eq_3)
  from takeoff_index_first_fix a b show ?thesis by blast
qed

subsection \<open>Exceptions that leave the handler\<close>

lemma bindE_Inr_iff: "bindE m f = Inr y \<longleftrightarrow> (\<exists>x. m = Inr x \<and> f x = Inr y)"
  by (cases m) (simp_all add: bindE_def)

lemma bindE_Inr [simp]: "bindE (Inr x) f = f x"
  by (simp add: bindE_def)

lemma bindE_Inl [simp]: "bindE (Inl e) f = Inl e"
  by (simp add: bindE_def)

lemma mapE_Inr_length: "mapE f xs = Inr ys \<Longrightarrow> length ys = length xs"
  by (induction xs arbitrary: ys) (auto split: sum.splits)

lemma mapE_Inr_nth: "mapE f xs = Inr ys \<Longrightarrow> i < length xs \<Longrightarrow> f (xs ! i) = Inr (ys ! i)"
proof (induction xs arbitrary: ys i)
  case Nil
  then show ?case by simp
next
  case (Cons x xs)
  then show ?case by (cases i) (auto split: sum.splits)
qed



























subsection \<open>Vehicle model\<close>

text \<open>
  Claim C7. The vehicle model is a total function of \<open>MAV_TYPE\<close>: 1 and 22 give the
  fixed-wing asset with scale 0.06, 2 gives the multirotor asset with scale 1, and every
  other value, a missing parameter included, gives the multirotor asset with scale 1.
\<close>

theorem select_model_total:
  "select_model (Some (IntS 1)) = (FloatS (double False 6 100), cesium_air)
   \<and> select_model (Some (IntS 2)) = (IntS 1, iris)
   \<and> select_model (Some (IntS 22)) = (FloatS (double False 6 100), cesium_air)
   \<and> select_model None = (IntS 1, iris)
   \<and> (\<forall>k. k \<noteq> 1 \<and> k \<noteq> 22 \<longrightarrow> select_model (Some (IntS k)) = (IntS 1, iris))
   \<and> (\<forall>x. \<not> fl_eq_int x 1 \<and> \<not> fl_eq_int x 22 \<longrightarrow> select_model (Some (FloatS x)) = (IntS 1, iris))
   \<and> (\<forall>m. select_model m = (FloatS (double False 6 100), cesium_air) \<or> select_model m = (IntS 1, iris))"
  by (simp add: select_model_def)

theorem select_model_total_witness:
  "select_model (Some (IntS 13)) = (IntS 1, iris)
   \<and> select_model (Some (FloatS (double False 5 2))) = (IntS 1, iris)"
proof -
  have a: "\<not> fl_eq_int (double False 5 2) 1 \<and> \<not> fl_eq_int (double False 5 2) 22"
    by code_simp
  have b: "(13::int) \<noteq> 1 \<and> (13::int) \<noteq> 22"
    by simp
  from select_model_total a b show ?thesis by blast
qed

subsection \<open>Gating of the optional series\<close>

text \<open>
  Claim C10. The manual control setpoints are serialised only when the loaded dataset is
  truthy: an empty dictionary gives the empty series. Every other optional series is
  serialised whenever its dataset is not \<open>None\<close>, so an empty dictionary is read there
  and the missing key is raised.
\<close>

theorem manual_control_gated_by_truthiness:
  "manual_control_setpoints_str off (Some []) = Inr ''[  ]''
   \<and> manual_control_setpoints_str off None = Inr ''[  ]''
   \<and> (d \<noteq> [] \<longrightarrow> manual_control_setpoints_str off (Some d) =
         bindE (series_records ManualControlSetpoint off d) (\<lambda>rs. Inr (series_str rs)))
   \<and> optional_series_str k off None = Inr ''[  ]''
   \<and> optional_series_str k off (Some d) =
         bindE (series_records k off d) (\<lambda>rs. Inr (series_str rs))
   \<and> (k \<noteq> ActuatorOutputs \<longrightarrow>
         optional_series_str k off (Some []) = Inl (Uncaught (KeyError ''timestamp'')))
   \<and> optional_series_str ActuatorOutputs off (Some []) = Inl (Uncaught (KeyError ''noutputs''))"
  by (cases k)
     (simp_all add: manual_control_setpoints_str_def optional_series_str_def truthy_def
        series_str_def rows_def getitem_def actuator_outputs_records_def)

theorem manual_control_gated_by_truthiness_witness:
  "manual_control_setpoints_str 0 (Some [(''timestamp'', IntCol [])]) = Inr ''[  ]''
   \<and> optional_series_str SensorCombined 0 (Some []) = Inl (Uncaught (KeyError ''timestamp''))"
proof -
  have a: "[(''timestamp'', IntCol [])] \<noteq> ([] :: dataset)"
    by simp
  have b: "SensorCombined \<noteq> ActuatorOutputs"
    by simp
  have c: "bindE (series_records ManualControlSetpoint 0 [(''timestamp'', IntCol [])])
             (\<lambda>rs. Inr (series_str rs)) = Inr ''[  ]''"
    by code_simp
  from manual_control_gated_by_truthiness [of 0 "[(''timestamp'', IntCol [])]" SensorCombined]
    a b c show ?thesis by simp
qed

subsection \<open>The page of a request that succeeds\<close>

lemma serialize_Inr_iff:
  "serialize tbl u gps att opt = Inr p \<longleftrightarrow>
     (\<exists>fx off pos atts.
        getitem gps ''fix_type'' = Inr fx
        \<and> takeoff_altitude_str gps (takeoff_index fx) = Inr (takeoff_altitude p)
        \<and> takeoff_latitude_str gps (takeoff_index fx) = Inr (takeoff_latitude p)
        \<and> takeoff_longitude_str gps (takeoff_index fx) = Inr (takeoff_longitude p)
        \<and> utc_offset gps (takeoff_index fx) = Inr off
        \<and> flight_modes_str tbl off (flight_mode_changes u) = Inr (flight_modes p)
        \<and> manual_control_setpoints_str off (manual_control_setpoint opt)
            = Inr (manual_control_setpoints p)
        \<and> series_records Position off gps = Inr pos
        \<and> position_data p = series_str pos
        \<and> start_end_timestamps pos = Inr (start_timestamp p, end_timestamp p)
        \<and> boot_timestamp_str off = Inr (boot_timestamp p)
        \<and> series_records Attitude off att = Inr atts
        \<and> attitude_data p = series_str atts
        \<and> optional_series_str VehicleRatesSetpoint off (vehicle_rates_setpoint opt)
            = Inr (vehicle_rates_setpoint_data p)
        \<and> optional_series_str SensorCombined off (sensor_combined opt)
            = Inr (sensor_combined_data p)
        \<and> optional_series_str VehicleAttitudeSetpoint off (vehicle_attitude_setpoint opt)
            = Inr (vehicle_attitude_setpoint_data p)
        \<and> optional_series_str VehicleLocalPosition off (vehicle_local_position opt)
            = Inr (vehicle_local_position_data p)
        \<and> optional_series_str VehicleLocalPositionSetpoint off
              (vehicle_local_position_setpoint opt)
            = Inr (vehicle_local_position_setpoint_data p)
        \<and> optional_series_str ActuatorOutputs off (actuator_outputs opt)
            = Inr (actuator_outputs_data p)
        \<and> optional_series_str ActuatorControls0 off (actuator_controls_0 opt)
            = Inr (actuator_controls_0_data p)
        \<and> model_scale_factor p = fst (select_model (initial_parameters u ''MAV_TYPE''))
        \<and> model_uri p = snd (select_model (initial_parameters u ''MAV_TYPE'')))"
  by (cases p)
     (auto simp: serialize_def bindE_Inr_iff simp del: series_records.simps split: prod.splits)

lemma load_optionals_Inr_iff:
  "load_optionals u = Inr opt \<longleftrightarrow>
     optional u ''manual_control_setpoint'' = Inr (manual_control_setpoint opt)
     \<and> optional u ''vehicle_local_position'' = Inr (vehicle_local_position opt)
     \<and> optional u ''vehicle_local_position_setpoint'' = Inr (vehicle_local_position_setpoint opt)
     \<and> optional u ''vehicle_attitude_setpoint'' = Inr (vehicle_attitude_setpoint opt)
     \<and> optional u ''vehicle_rates_setpoint'' = Inr (vehicle_rates_setpoint opt)
     \<and> optional u ''actuator_outputs'' = Inr (actuator_outputs opt)
     \<and> optional u ''sensor_combined'' = Inr (sensor_combined opt)
     \<and> optional u ''actuator_controls_0'' = Inr (actuator_controls_0 opt)"
  by (cases opt) (auto simp: load_optionals_def bindE_Inr_iff)

lemma required_Inr_iff: "required u n = Inr d \<longleftrightarrow> datasets u n = Inr d"
  by (simp add: required_def split: sum.splits)

lemma get_Inr_iff:
  "get tbl v u = Inr p \<longleftrightarrow>
     v \<and> (\<exists>gps vgp att opt.
        datasets u ''vehicle_gps_position'' = Inr gps
        \<and> datasets u ''vehicle_global_position'' = Inr vgp
        \<and> datasets u ''vehicle_attitude'' = Inr att
        \<and> load_optionals u = Inr opt
        \<and> serialize tbl u gps att opt = Inr p)"
  by (auto simp: get_def bindE_Inr_iff required_Inr_iff)

lemma get_ex_log: "get ex_tbl True ex_log = Inr ex_page"
  by code_simp

lemma optional_Some: "optional u n = Inr x \<Longrightarrow> datasets u n = Inr d \<Longrightarrow> x = Some d"
  by (simp add: optional_def)

lemma optional_series_str_Some:
  "optional_series_str k off (Some d) = Inr s \<longleftrightarrow>
     (\<exists>rs. series_records k off d = Inr rs \<and> s = series_str rs)"
  by (auto simp: optional_series_str_def bindE_Inr_iff simp del: series_records.simps)

lemma manual_control_setpoints_str_Some:
  "d \<noteq> [] \<Longrightarrow> manual_control_setpoints_str off (Some d) = Inr s \<longleftrightarrow>
     (\<exists>rs. series_records ManualControlSetpoint off d = Inr rs \<and> s = series_str rs)"
  by (auto simp: manual_control_setpoints_str_def truthy_def bindE_Inr_iff
      simp del: series_records.simps)

text \<open>
  Every series that is serialised is the text of the records of its dataset, made with
  the offset of the takeoff sample.
\<close>

lemma get_page_series:
  assumes "get tbl v u = Inr p"
  shows "\<exists>gps fx off.
     datasets u ''vehicle_gps_position'' = Inr gps
     \<and> getitem gps ''fix_type'' = Inr fx
     \<and> utc_offset gps (takeoff_index fx) = Inr off
     \<and> flight_modes_str tbl off (flight_mode_changes u) = Inr (flight_modes p)
     \<and> boot_timestamp_str off = Inr (boot_timestamp p)
     \<and> (\<forall>k d. datasets u (topic k) = Inr d \<and> (k = ManualControlSetpoint \<longrightarrow> d \<noteq> []) \<longrightarrow>
          (\<exists>rs. series_records k off d = Inr rs \<and> page_series k p = series_str rs))"
proof -
  from assms obtain gps vgp att opt where g:
    "datasets u ''vehicle_gps_position'' = Inr gps"
    "datasets u ''vehicle_attitude'' = Inr att"
    "load_optionals u = Inr opt"
    "serialize tbl u gps att opt = Inr p"
    unfolding get_Inr_iff by blast
  note o = g(3) [unfolded load_optionals_Inr_iff]
  from g(4) obtain fx off pos atts where s:
    "getitem gps ''fix_type'' = Inr fx"
    "utc_offset gps (takeoff_index fx) = Inr off"
    "flight_modes_str tbl off (flight_mode_changes u) = Inr (flight_modes p)"
    "manual_control_setpoints_str off (manual_control_setpoint opt)
       = Inr (manual_control_setpoints p)"
    "series_records Position off gps = Inr pos" "position_data p = series_str pos"
    "boot_timestamp_str off = Inr (boot_timestamp p)"
    "series_records Attitude off att = Inr atts" "attitude_data p = series_str atts"
    "optional_series_str VehicleRatesSetpoint off (vehicle_rates_setpoint opt)
       = Inr (vehicle_rates_setpoint_data p)"
    "optional_series_str SensorCombined off (sensor_combined opt)
       = Inr (sensor_combined_data p)"
    "optional_series_str VehicleAttitudeSetpoint off (vehicle_attitude_setpoint opt)
       = Inr (vehicle_attitude_setpoint_data p)"
    "optional_series_str VehicleLocalPosition off (vehicle_local_position opt)
       = Inr (vehicle_local_position_data p)"
    "optional_series_str VehicleLocalPositionSetpoint off (vehicle_local_position_setpoint opt)
       = Inr (vehicle_local_position_setpoint_data p)"
    "optional_series_str ActuatorOutputs off (actuator_outputs opt)
       = Inr (actuator_outputs_data p)"
    "optional_series_str ActuatorControls0 off (actuator_controls_0 opt)
       = Inr (actuator_controls_0_data p)"
    unfolding serialize_Inr_iff by blast
  have "\<exists>rs. series_records k off d = Inr rs \<and> page_series k p = series_str rs"
    if d: "datasets u (topic k) = Inr d" and m: "k = ManualControlSetpoint \<longrightarrow> d \<noteq> []" for k d
  proof (cases k)
    case ManualControlSetpoint
    with d o have "manual_control_setpoint opt = Some d"
      using optional_Some by fastforce
    with s(4) m ManualControlSetpoint show ?thesis
      by (simp add: manual_control_setpoints_str_Some del: series_records.simps)
  next
    case Position
    with d g(1) s(5,6) show ?thesis by simp
  next
    case Attitude
    with d g(2) s(8,9) show ?thesis by simp
  next
    case VehicleRatesSetpoint
    with d o have "vehicle_rates_setpoint opt = Some d"
      using optional_Some by fastforce
    with s(10) VehicleRatesSetpoint show ?thesis
      by (simp add: optional_series_str_Some del: series_records.simps)
  next
    case SensorCombined
    with d o have "sensor_combined opt = Some d"
      using optional_Some by fastforce
    with s(11) SensorCombined show ?thesis
      by (simp add: optional_series_str_Some del: series_records.simps)
  next
    case VehicleAttitudeSetpoint
    with d o have "vehicle_attitude_setpoint opt = Some d"
      using optional_Some by fastforce
    with s(12) VehicleAttitudeSetpoint show ?thesis
      by (simp add: optional_series_str_Some del: series_records.simps)
  next
    case VehicleLocalPosition
    with d o have "vehicle_local_position opt = Some d"
      using optional_Some by fastforce
    with s(13) VehicleLocalPosition show ?thesis
      by (simp add: optional_series_str_Some del: series_records.simps)
  next
    case VehicleLocalPositionSetpoint
    with d o have "vehicle_local_position_setpoint opt = Some d"
      using optional_Some by fastforce
    with s(14) VehicleLocalPositionSetpoint show ?thesis
      by (simp add: optional_series_str_Some del: series_records.simps)
  next
    case ActuatorOutputs
    with d o have "actuator_outputs opt = Some d"
      using optional_Some by fastforce
    with s(15) ActuatorOutputs show ?thesis
      by (simp add: optional_series_str_Some del: series_records.simps)
  next
    case ActuatorControls0
    with d o have "actuator_controls_0 opt = Some d"
      using optional_Some by fastforce
    with s(16) ActuatorControls0 show ?thesis
      by (simp add: optional_series_str_Some del: series_records.simps)
  qed
  with g(1) s(1,2,3,7) show ?thesis by blast
qed

lemma rows_Inr_iff:
  "rows d body = Inr rs \<longleftrightarrow>
     (\<exists>c. getitem d ''timestamp'' = Inr c \<and> mapE body [0..<col_len c] = Inr rs)"
  by (simp add: rows_def bindE_Inr_iff)

lemma rows_Inr_nth:
  assumes "rows d body = Inr rs"
  shows "\<exists>c. getitem d ''timestamp'' = Inr c \<and> length rs = col_len c
           \<and> (\<forall>i<length rs. body i = Inr (rs ! i))"
proof -
  from assms obtain c where c: "getitem d ''timestamp'' = Inr c"
    "mapE body [0..<col_len c] = Inr rs"
    unfolding rows_Inr_iff by blast
  from c(2) have l: "length rs = col_len c"
    using mapE_Inr_length by fastforce
  have "body i = Inr (rs ! i)" if "i < length rs" for i
    using mapE_Inr_nth [OF c(2), of i] that l by simp
  with c(1) l show ?thesis by blast
qed

subsection \<open>Attitude records\<close>

lemma stamp_Inr_iff:
  "stamp d off i = Inr s \<longleftrightarrow>
     (\<exists>t t'. field d ''timestamp'' i = Inr t \<and> add_offset t off = Inr t' \<and> utc_iso t' = Inr s)"
  by (simp add: stamp_def bindE_Inr_iff)

lemma attitude_row_text:
  assumes "attitude_row off att i = Inr r"
  shows \<open>\<exists>ts qw qx qy qz rsp ps ys.
     stamp att off i = Inr ts
     \<and> field att ''q[0]'' i = Inr qw \<and> field att ''q[1]'' i = Inr qx
     \<and> field att ''q[2]'' i = Inr qy \<and> field att ''q[3]'' i = Inr qz
     \<and> field att ''rollspeed'' i = Inr rsp \<and> field att ''pitchspeed'' i = Inr ps
     \<and> field att ''yawspeed'' i = Inr ys
     \<and> fmt_record r =
         ''["'' @ ts @ ''", '' @ fmt 6 qx @ '', '' @ fmt 6 qy @ '', '' @ fmt 6 qz @ '', '' @
         fmt 6 qw @ '', '' @ fmt 6 rsp @ '', '' @ fmt 6 ps @ '', '' @ fmt 6 ys @ ''], ''\<close>
  using assms unfolding attitude_row_def bindE_Inr_iff
  by (fastforce simp: fmt_record_def)

text \<open>
  Claim C6. In the attitude text handed to the page every record holds, after the
  timestamp, the quaternion in the order x, y, z, w, read from \<open>q[1]\<close>, \<open>q[2]\<close>, \<open>q[3]\<close>,
  \<open>q[0]\<close>, then roll, pitch and yaw speed, each with six decimals; the stored quaternion
  (0.7, 0.1, 0.2, 0.68) is written as 0.100000, 0.200000, 0.680000, 0.700000.
\<close>

theorem attitude_emitted_order:
  \<open>(\<forall>tbl v u p. get tbl v u = Inr p \<longrightarrow>
      (\<exists>att off c rs.
         datasets u ''vehicle_attitude'' = Inr att
         \<and> getitem att ''timestamp'' = Inr c \<and> length rs = col_len c
         \<and> attitude_data p = ''[ '' @ concat rs @ '' ]''
         \<and> (\<forall>i<length rs. \<exists>ts qw qx qy qz rsp ps ys.
               stamp att off i = Inr ts
               \<and> field att ''q[0]'' i = Inr qw \<and> field att ''q[1]'' i = Inr qx
               \<and> field att ''q[2]'' i = Inr qy \<and> field att ''q[3]'' i = Inr qz
               \<and> field att ''rollspeed'' i = Inr rsp \<and> field att ''pitchspeed'' i = Inr ps
               \<and> field att ''yawspeed'' i = Inr ys
               \<and> rs ! i =
                   ''["'' @ ts @ ''", '' @ fmt 6 qx @ '', '' @ fmt 6 qy @ '', '' @
                   fmt 6 qz @ '', '' @ fmt 6 qw @ '', '' @ fmt 6 rsp @ '', '' @
                   fmt 6 ps @ '', '' @ fmt 6 ys @ ''], '')))
   \<and> datasets ex_log ''vehicle_attitude'' = Inr ex_attitude
   \<and> map (\<lambda>k. field ex_attitude k 0) [''q[0]'', ''q[1]'', ''q[2]'', ''q[3]''] =
       map (\<lambda>x. Inr (FloatS x))
         [float32 False 7 10, float32 False 1 10, float32 False 2 10, float32 False 68 100]
   \<and> (\<exists>p. get ex_tbl True ex_log = Inr p
        \<and> attitude_data p =
            ''[ ["2020-09-13T12:26:41.123456+00:00", 0.100000, 0.200000, 0.680000, '' @
            ''0.700000, -0.010000, 0.000000, 1.250000],  ]'')\<close>
proof (intro conjI allI impI)
  fix tbl v u p
  assume "get tbl v u = Inr p"
  from get_page_series [OF this] obtain gps fx off where
    a: "\<forall>k d. datasets u (topic k) = Inr d \<and> (k = ManualControlSetpoint \<longrightarrow> d \<noteq> []) \<longrightarrow>
          (\<exists>rs. series_records k off d = Inr rs \<and> page_series k p = series_str rs)"
    by blast
  from \<open>get tbl v u = Inr p\<close> obtain att where att: "datasets u ''vehicle_attitude'' = Inr att"
    unfolding get_Inr_iff by blast
  with a [rule_format, of Attitude att] obtain rs0 where
    rs0: "rows att (attitude_row off att) = Inr rs0" "attitude_data p = series_str rs0"
    by auto
  from rows_Inr_nth [OF rs0(1)] obtain c where c: "getitem att ''timestamp'' = Inr c"
    "length rs0 = col_len c" "\<forall>i<length rs0. attitude_row off att i = Inr (rs0 ! i)"
    by blast
  let ?rs = "map fmt_record rs0"
  have \<open>\<exists>ts qw qx qy qz rsp ps ys.
               stamp att off i = Inr ts
               \<and> field att ''q[0]'' i = Inr qw \<and> field att ''q[1]'' i = Inr qx
               \<and> field att ''q[2]'' i = Inr qy \<and> field att ''q[3]'' i = Inr qz
               \<and> field att ''rollspeed'' i = Inr rsp \<and> field att ''pitchspeed'' i = Inr ps
               \<and> field att ''yawspeed'' i = Inr ys
               \<and> ?rs ! i =
                   ''["'' @ ts @ ''", '' @ fmt 6 qx @ '', '' @ fmt 6 qy @ '', '' @
                   fmt 6 qz @ '', '' @ fmt 6 qw @ '', '' @ fmt 6 rsp @ '', '' @
                   fmt 6 ps @ '', '' @ fmt 6 ys @ ''], ''\<close> if "i < length ?rs" for i
    using attitude_row_text [of off att i "rs0 ! i"] c(3) that by simp
  moreover have "attitude_data p = ''[ '' @ concat ?rs @ '' ]''"
    using rs0(2) by (simp add: series_str_def)
  moreover have "length ?rs = col_len c"
    using c(2) by simp
  ultimately show \<open>\<exists>att off c rs.
         datasets u ''vehicle_attitude'' = Inr att
         \<and> getitem att ''timestamp'' = Inr c \<and> length rs = col_len c
         \<and> attitude_data p = ''[ '' @ concat rs @ '' ]''
         \<and> (\<forall>i<length rs. \<exists>ts qw qx qy qz rsp ps ys.
               stamp att off i = Inr ts
               \<and> field att ''q[0]'' i = Inr qw \<and> field att ''q[1]'' i = Inr qx
               \<and> field att ''q[2]'' i = Inr qy \<and> field att ''q[3]'' i = Inr qz
               \<and> field att ''rollspeed'' i = Inr rsp \<and> field att ''pitchspeed'' i = Inr ps
               \<and> field att ''yawspeed'' i = Inr ys
               \<and> rs ! i =
                   ''["'' @ ts @ ''", '' @ fmt 6 qx @ '', '' @ fmt 6 qy @ '', '' @
                   fmt 6 qz @ '', '' @ fmt 6 qw @ '', '' @ fmt 6 rsp @ '', '' @
                   fmt 6 ps @ '', '' @ fmt 6 ys @ ''], '')\<close>
    using att c(1) by blast
next
  show "datasets ex_log ''vehicle_attitude'' = Inr ex_attitude"
    by (simp add: ex_log_def)
next
  show "map (\<lambda>k. field ex_attitude k 0) [''q[0]'', ''q[1]'', ''q[2]'', ''q[3]''] =
       map (\<lambda>x. Inr (FloatS x))
         [float32 False 7 10, float32 False 1 10, float32 False 2 10, float32 False 68 100]"
    by (simp add: ex_attitude_def field_def getitem_def)
next
  show \<open>\<exists>p. get ex_tbl True ex_log = Inr p
        \<and> attitude_data p =
            ''[ ["2020-09-13T12:26:41.123456+00:00", 0.100000, 0.200000, 0.680000, '' @
            ''0.700000, -0.010000, 0.000000, 1.250000],  ]''\<close>
    using get_ex_log by (simp add: ex_page_def)
qed

theorem attitude_emitted_order_witness:
  \<open>\<exists>att off c rs.
     datasets ex_log ''vehicle_attitude'' = Inr att
     \<and> getitem att ''timestamp'' = Inr c \<and> length rs = col_len c
     \<and> attitude_data ex_page = ''[ '' @ concat rs @ '' ]''\<close>
proof -
  have "get ex_tbl True ex_log = Inr ex_page"
    by code_simp
  with attitude_emitted_order show ?thesis
    by blast
qed

subsection \<open>Position and takeoff values\<close>

lemma field_IntCol:
  "getitem d k = Inr (IntCol xs) \<Longrightarrow> field d k i = Inr v \<Longrightarrow> v = IntS (xs ! i)"
  by (auto simp: field_def split: if_splits)

lemma position_row_text:
  assumes "position_row off gps i = Inr r"
    and "getitem gps ''lon'' = Inr (IntCol lons)"
    and "getitem gps ''lat'' = Inr (IntCol lats)"
    and "getitem gps ''alt'' = Inr (IntCol alts)"
  shows \<open>\<exists>ts. stamp gps off i = Inr ts
     \<and> fmt_record r =
         ''["'' @ ts @ ''", '' @
         format_f 10 (fmul (fl_of_int (lons ! i)) (double False 1 10000000)) @ '', '' @
         format_f 10 (fmul (fl_of_int (lats ! i)) (double False 1 10000000)) @ '', '' @
         format_f 3 (fmul (fl_of_int (alts ! i)) (double False 1 1000)) @ ''], ''\<close>
proof -
  from assms(1) obtain lon lat alt ts where a:
    "field gps ''lon'' i = Inr lon" "field gps ''lat'' i = Inr lat"
    "field gps ''alt'' i = Inr alt" "stamp gps off i = Inr ts"
    "r = (ts, [format_f 10 (fmul (to_float lon) (double False 1 10000000)),
               format_f 10 (fmul (to_float lat) (double False 1 10000000)),
               format_f 3 (fmul (to_float alt) (double False 1 1000))])"
    unfolding position_row_def bindE_Inr_iff Let_def by auto
  have "lon = IntS (lons ! i)" "lat = IntS (lats ! i)" "alt = IntS (alts ! i)"
    using a(1-3) assms(2-4) field_IntCol by blast+
  with a(4,5) show ?thesis
    by (simp add: fmt_record_def)
qed

lemma get_takeoff:
  assumes "get tbl v u = Inr p" and "datasets u ''vehicle_gps_position'' = Inr gps"
  shows "\<exists>fx. getitem gps ''fix_type'' = Inr fx
     \<and> takeoff_altitude_str gps (takeoff_index fx) = Inr (takeoff_altitude p)
     \<and> takeoff_latitude_str gps (takeoff_index fx) = Inr (takeoff_latitude p)
     \<and> takeoff_longitude_str gps (takeoff_index fx) = Inr (takeoff_longitude p)"
  using assms unfolding get_Inr_iff serialize_Inr_iff by auto

lemma takeoff_str_IntCol:
  "getitem gps ''lon'' = Inr (IntCol lons) \<Longrightarrow> takeoff_longitude_str gps i = Inr s \<Longrightarrow>
     s = format_f 10 (fmul (fl_of_int (lons ! i)) (double False 1 10000000))"
  "getitem gps ''lat'' = Inr (IntCol lats) \<Longrightarrow> takeoff_latitude_str gps i = Inr s \<Longrightarrow>
     s = format_f 10 (fmul (fl_of_int (lats ! i)) (double False 1 10000000))"
  "getitem gps ''alt'' = Inr (IntCol alts) \<Longrightarrow> takeoff_altitude_str gps i = Inr s \<Longrightarrow>
     s = format_f 3 (fmul (fl_of_int (alts ! i)) (double False 1 1000))"
  by (auto simp: takeoff_longitude_str_def takeoff_latitude_str_def takeoff_altitude_str_def
      bindE_Inr_iff dest: field_IntCol)

text \<open>
  Claim C9. With integer columns \<open>lon\<close>, \<open>lat\<close> and \<open>alt\<close>, the takeoff values and the
  numbers of every position record handed to the page are: the stored longitude and
  latitude multiplied by \<open>1e-7\<close>, with ten decimals, and the stored altitude multiplied by
  \<open>1e-3\<close>, with three decimals. The stored values 473977420, 85455940 and 1500 are
  written as \<open>47.3977420000\<close>, \<open>8.5455940000\<close> and \<open>1.500\<close>.
\<close>

theorem position_scale_and_format:
  \<open>(\<forall>tbl v u p gps lons lats alts.
      get tbl v u = Inr p \<and> datasets u ''vehicle_gps_position'' = Inr gps
      \<and> getitem gps ''lon'' = Inr (IntCol lons) \<and> getitem gps ''lat'' = Inr (IntCol lats)
      \<and> getitem gps ''alt'' = Inr (IntCol alts) \<longrightarrow>
      (\<exists>fx off c rs.
         getitem gps ''fix_type'' = Inr fx
         \<and> takeoff_longitude p =
             format_f 10 (fmul (fl_of_int (lons ! takeoff_index fx)) (double False 1 10000000))
         \<and> takeoff_latitude p =
             format_f 10 (fmul (fl_of_int (lats ! takeoff_index fx)) (double False 1 10000000))
         \<and> takeoff_altitude p =
             format_f 3 (fmul (fl_of_int (alts ! takeoff_index fx)) (double False 1 1000))
         \<and> getitem gps ''timestamp'' = Inr c \<and> length rs = col_len c
         \<and> position_data p = ''[ '' @ concat rs @ '' ]''
         \<and> (\<forall>i<length rs. \<exists>ts.
               stamp gps off i = Inr ts
               \<and> rs ! i =
                   ''["'' @ ts @ ''", '' @
                   format_f 10 (fmul (fl_of_int (lons ! i)) (double False 1 10000000)) @ '', '' @
                   format_f 10 (fmul (fl_of_int (lats ! i)) (double False 1 10000000)) @ '', '' @
                   format_f 3 (fmul (fl_of_int (alts ! i)) (double False 1 1000)) @ ''], '')))
   \<and> format_f 10 (fmul (fl_of_int 473977420) (double False 1 10000000)) = ''47.3977420000''
   \<and> format_f 10 (fmul (fl_of_int 85455940) (double False 1 10000000)) = ''8.5455940000''
   \<and> format_f 3 (fmul (fl_of_int 1500) (double False 1 1000)) = ''1.500''
   \<and> (\<exists>p. get ex_tbl True ex_log = Inr p
        \<and> takeoff_longitude p = ''47.3977420000''
        \<and> takeoff_latitude p = ''8.5455940000''
        \<and> takeoff_altitude p = ''1.500''
        \<and> position_data p =
            ''[ ["2020-09-13T12:26:40.123456+00:00", 47.3977410000, 8.5455930000, 1.400], '' @
            ''["2020-09-13T12:26:41.123456+00:00", 47.3977420000, 8.5455940000, 1.500],  ]'')\<close>
proof (intro conjI allI impI)
  fix tbl v u p gps lons lats alts
  assume h: "get tbl v u = Inr p \<and> datasets u ''vehicle_gps_position'' = Inr gps
      \<and> getitem gps ''lon'' = Inr (IntCol lons) \<and> getitem gps ''lat'' = Inr (IntCol lats)
      \<and> getitem gps ''alt'' = Inr (IntCol alts)"
  then have g: "get tbl v u = Inr p" and d: "datasets u ''vehicle_gps_position'' = Inr gps"
    and lon: "getitem gps ''lon'' = Inr (IntCol lons)"
    and lat: "getitem gps ''lat'' = Inr (IntCol lats)"
    and alt: "getitem gps ''alt'' = Inr (IntCol alts)"
    by simp_all
  from get_takeoff [OF g d] obtain fx where fx: "getitem gps ''fix_type'' = Inr fx"
    "takeoff_altitude_str gps (takeoff_index fx) = Inr (takeoff_altitude p)"
    "takeoff_latitude_str gps (takeoff_index fx) = Inr (takeoff_latitude p)"
    "takeoff_longitude_str gps (takeoff_index fx) = Inr (takeoff_longitude p)"
    by blast
  note t = takeoff_str_IntCol(1) [OF lon fx(4)] takeoff_str_IntCol(2) [OF lat fx(3)]
    takeoff_str_IntCol(3) [OF alt fx(2)]
  from get_page_series [OF g] obtain off where
    a: "\<forall>k d. datasets u (topic k) = Inr d \<and> (k = ManualControlSetpoint \<longrightarrow> d \<noteq> []) \<longrightarrow>
          (\<exists>rs. series_records k off d = Inr rs \<and> page_series k p = series_str rs)"
    by blast
  with a [rule_format, of Position gps] d obtain rs0 where
    rs0: "rows gps (position_row off gps) = Inr rs0" "position_data p = series_str rs0"
    by auto
  from rows_Inr_nth [OF rs0(1)] obtain c where c: "getitem gps ''timestamp'' = Inr c"
    "length rs0 = col_len c" "\<forall>i<length rs0. position_row off gps i = Inr (rs0 ! i)"
    by blast
  let ?rs = "map fmt_record rs0"
  have r: \<open>\<exists>ts. stamp gps off i = Inr ts
               \<and> ?rs ! i =
                   ''["'' @ ts @ ''", '' @
                   format_f 10 (fmul (fl_of_int (lons ! i)) (double False 1 10000000)) @ '', '' @
                   format_f 10 (fmul (fl_of_int (lats ! i)) (double False 1 10000000)) @ '', '' @
                   format_f 3 (fmul (fl_of_int (alts ! i)) (double False 1 1000)) @ ''], ''\<close>
    if "i < length ?rs" for i
    using position_row_text [OF _ lon lat alt, of off i "rs0 ! i"] c(3) that by simp
  have s: "position_data p = ''[ '' @ concat ?rs @ '' ]''"
    using rs0(2) by (simp add: series_str_def)
  have l: "length ?rs = col_len c"
    using c(2) by simp
  show \<open>\<exists>fx off c rs.
         getitem gps ''fix_type'' = Inr fx
         \<and> takeoff_longitude p =
             format_f 10 (fmul (fl_of_int (lons ! takeoff_index fx)) (double False 1 10000000))
         \<and> takeoff_latitude p =
             format_f 10 (fmul (fl_of_int (lats ! takeoff_index fx)) (double False 1 10000000))
         \<and> takeoff_altitude p =
             format_f 3 (fmul (fl_of_int (alts ! takeoff_index fx)) (double False 1 1000))
         \<and> getitem gps ''timestamp'' = Inr c \<and> length rs = col_len c
         \<and> position_data p = ''[ '' @ concat rs @ '' ]''
         \<and> (\<forall>i<length rs. \<exists>ts.
               stamp gps off i = Inr ts
               \<and> rs ! i =
                   ''["'' @ ts @ ''", '' @
                   format_f 10 (fmul (fl_of_int (lons ! i)) (double False 1 10000000)) @ '', '' @
                   format_f 10 (fmul (fl_of_int (lats ! i)) (double False 1 10000000)) @ '', '' @
                   format_f 3 (fmul (fl_of_int (alts ! i)) (double False 1 1000)) @ ''], '')\<close>
    using fx(1) t c(1) l s r by blast
next
  show "format_f 10 (fmul (fl_of_int 473977420) (double False 1 10000000)) = ''47.3977420000''"
    by code_simp
next
  show "format_f 10 (fmul (fl_of_int 85455940) (double False 1 10000000)) = ''8.5455940000''"
    by code_simp
next
  show "format_f 3 (fmul (fl_of_int 1500) (double False 1 1000)) = ''1.500''"
    by code_simp
next
  show \<open>\<exists>p. get ex_tbl True ex_log = Inr p
        \<and> takeoff_longitude p = ''47.3977420000''
        \<and> takeoff_latitude p = ''8.5455940000''
        \<and> takeoff_altitude p = ''1.500''
        \<and> position_data p =
            ''[ ["2020-09-13T12:26:40.123456+00:00", 47.3977410000, 8.5455930000, 1.400], '' @
            ''["2020-09-13T12:26:41.123456+00:00", 47.3977420000, 8.5455940000, 1.500],  ]''\<close>
    using get_ex_log by (simp add: ex_page_def)
qed

theorem position_scale_and_format_witness:
  \<open>\<exists>fx off c rs.
     getitem ex_gps ''fix_type'' = Inr fx
     \<and> takeoff_longitude ex_page =
         format_f 10 (fmul (fl_of_int ([473977410, 473977420] ! takeoff_index fx))
           (double False 1 10000000))
     \<and> takeoff_latitude ex_page =
         format_f 10 (fmul (fl_of_int ([85455930, 85455940] ! takeoff_index fx))
           (double False 1 10000000))
     \<and> takeoff_altitude ex_page =
         format_f 3 (fmul (fl_of_int ([1400, 1500] ! takeoff_index fx)) (double False 1 1000))
     \<and> getitem ex_gps ''timestamp'' = Inr c \<and> length rs = col_len c
     \<and> position_data ex_page = ''[ '' @ concat rs @ '' ]''\<close>
proof -
  have "get ex_tbl True ex_log = Inr ex_page"
    by code_simp
  moreover have "datasets ex_log ''vehicle_gps_position'' = Inr ex_gps"
    by (simp add: ex_log_def)
  moreover have "getitem ex_gps ''lon'' = Inr (IntCol [473977410, 473977420])"
    "getitem ex_gps ''lat'' = Inr (IntCol [85455930, 85455940])"
    "getitem ex_gps ''alt'' = Inr (IntCol [1400, 1500])"
    by (simp_all add: ex_gps_def getitem_def)
  ultimately show ?thesis
    using position_scale_and_format
      [THEN conjunct1, rule_format, of ex_tbl True ex_log ex_page ex_gps
        "[473977410, 473977420]" "[85455930, 85455940]" "[1400, 1500]"]
    by blast
qed

subsection \<open>Actuator output channels\<close>

lemma actuator_outputs_row_text:
  assumes "actuator_outputs_row (IntS n) off d i = Inr r"
  shows \<open>\<exists>ts vs. stamp d off i = Inr ts \<and> length vs = nat n
     \<and> (\<forall>x<nat n. field d (''output['' @ show_nat (int x) @ '']'') i = Inr (vs ! x))
     \<and> fmt_record r = ''["'' @ ts @ ''"'' @ concat (map (\<lambda>v. '', '' @ fmt 6 v) vs) @ ''], ''\<close>
proof -
  from assms obtain ts vs where a: "stamp d off i = Inr ts"
    "mapE (\<lambda>x. field d (''output['' @ show_nat (int x) @ '']'') i) [0..<nat n] = Inr vs"
    "r = (ts, map (fmt 6) vs)"
    unfolding actuator_outputs_row_def bindE_Inr_iff by auto
  from a(2) have l: "length vs = nat n"
    using mapE_Inr_length by fastforce
  have "field d (''output['' @ show_nat (int x) @ '']'') i = Inr (vs ! x)" if "x < nat n" for x
    using mapE_Inr_nth [OF a(2), of x] that by simp
  with a(1,3) l show ?thesis
    by (auto simp: fmt_record_def comp_def)
qed

text \<open>
  Claim C1. Every record of the actuator outputs handed to the page holds one channel
  for every \<open>x\<close> below the largest value of \<open>noutputs\<close>, whatever that value is: the
  channel loop runs over \<open>range(max_outputs)\<close> and the count capped at 8 is not used.
  The example log, whose \<open>noutputs\<close> is 16, gets a record of sixteen channels.
\<close>

theorem actuator_outputs_channel_count:
  \<open>(\<forall>tbl v u p d c n.
      get tbl v u = Inr p \<and> datasets u ''actuator_outputs'' = Inr d
      \<and> getitem d ''noutputs'' = Inr c \<and> amax c = Inr (IntS n) \<longrightarrow>
      (\<exists>off ct rs.
         getitem d ''timestamp'' = Inr ct \<and> length rs = col_len ct
         \<and> actuator_outputs_data p = ''[ '' @ concat rs @ '' ]''
         \<and> (\<forall>i<length rs. \<exists>ts vs.
               stamp d off i = Inr ts \<and> length vs = nat n
               \<and> (\<forall>x<nat n. field d (''output['' @ show_nat (int x) @ '']'') i = Inr (vs ! x))
               \<and> rs ! i =
                   ''["'' @ ts @ ''"'' @ concat (map (\<lambda>v. '', '' @ fmt 6 v) vs) @ ''], '')))
   \<and> datasets ex_log ''actuator_outputs'' = Inr ex_actuator_outputs
   \<and> bindE (getitem ex_actuator_outputs ''noutputs'') amax = Inr (IntS 16)
   \<and> (\<exists>p. get ex_tbl True ex_log = Inr p
        \<and> actuator_outputs_data p =
            ''[ ["2020-09-13T12:26:41.123456+00:00", 1000.000000, 1001.000000, '' @
            ''1002.000000, 1003.000000, 1004.000000, 1005.000000, 1006.000000, '' @
            ''1007.000000, 1008.000000, 1009.000000, 1010.000000, 1011.000000, '' @
            ''1012.000000, 1013.000000, 1014.000000, 1015.000000],  ]'')\<close>
proof (intro conjI allI impI)
  fix tbl v u p d c n
  assume h: "get tbl v u = Inr p \<and> datasets u ''actuator_outputs'' = Inr d
      \<and> getitem d ''noutputs'' = Inr c \<and> amax c = Inr (IntS n)"
  then have g: "get tbl v u = Inr p" and d: "datasets u ''actuator_outputs'' = Inr d"
    and c: "getitem d ''noutputs'' = Inr c" "amax c = Inr (IntS n)"
    by simp_all
  from get_page_series [OF g] obtain off where
    a: "\<forall>k d. datasets u (topic k) = Inr d \<and> (k = ManualControlSetpoint \<longrightarrow> d \<noteq> []) \<longrightarrow>
          (\<exists>rs. series_records k off d = Inr rs \<and> page_series k p = series_str rs)"
    by blast
  with a [rule_format, of ActuatorOutputs d] d obtain rs0 where
    rs0: "actuator_outputs_records off d = Inr rs0" "actuator_outputs_data p = series_str rs0"
    by auto
  from rs0(1) c have "rows d (actuator_outputs_row (IntS n) off d) = Inr rs0"
    by (simp add: actuator_outputs_records_def)
  from rows_Inr_nth [OF this] obtain ct where ct: "getitem d ''timestamp'' = Inr ct"
    "length rs0 = col_len ct"
    "\<forall>i<length rs0. actuator_outputs_row (IntS n) off d i = Inr (rs0 ! i)"
    by blast
  let ?rs = "map fmt_record rs0"
  have r: \<open>\<exists>ts vs.
               stamp d off i = Inr ts \<and> length vs = nat n
               \<and> (\<forall>x<nat n. field d (''output['' @ show_nat (int x) @ '']'') i = Inr (vs ! x))
               \<and> ?rs ! i =
                   ''["'' @ ts @ ''"'' @ concat (map (\<lambda>v. '', '' @ fmt 6 v) vs) @ ''], ''\<close>
    if "i < length ?rs" for i
    using actuator_outputs_row_text [of n off d i "rs0 ! i"] ct(3) that by simp
  have s: "actuator_outputs_data p = ''[ '' @ concat ?rs @ '' ]''"
    using rs0(2) by (simp add: series_str_def)
  have l: "length ?rs = col_len ct"
    using ct(2) by simp
  show \<open>\<exists>off ct rs.
         getitem d ''timestamp'' = Inr ct \<and> length rs = col_len ct
         \<and> actuator_outputs_data p = ''[ '' @ concat rs @ '' ]''
         \<and> (\<forall>i<length rs. \<exists>ts vs.
               stamp d off i = Inr ts \<and> length vs = nat n
               \<and> (\<forall>x<nat n. field d (''output['' @ show_nat (int x) @ '']'') i = Inr (vs ! x))
               \<and> rs ! i =
                   ''["'' @ ts @ ''"'' @ concat (map (\<lambda>v. '', '' @ fmt 6 v) vs) @ ''], '')\<close>
    using ct(1) l s r by blast
next
  show "datasets ex_log ''actuator_outputs'' = Inr ex_actuator_outputs"
    by (simp add: ex_log_def)
next
  show "bindE (getitem ex_actuator_outputs ''noutputs'') amax = Inr (IntS 16)"
    by (simp add: ex_actuator_outputs_def getitem_def)
next
  show \<open>\<exists>p. get ex_tbl True ex_log = Inr p
        \<and> actuator_outputs_data p =
            ''[ ["2020-09-13T12:26:41.123456+00:00", 1000.000000, 1001.000000, '' @
            ''1002.000000, 1003.000000, 1004.000000, 1005.000000, 1006.000000, '' @
            ''1007.000000, 1008.000000, 1009.000000, 1010.000000, 1011.000000, '' @
            ''1012.000000, 1013.000000, 1014.000000, 1015.000000],  ]''\<close>
    using get_ex_log by (simp add: ex_page_def)
qed

theorem actuator_outputs_channel_count_witness:
  \<open>\<exists>ts vs r rest.
     actuator_outputs_data ex_page = ''[ '' @ r @ rest
     \<and> r = ''["'' @ ts @ ''"'' @ concat (map (\<lambda>v. '', '' @ fmt 6 v) vs) @ ''], ''
     \<and> length vs = 16 \<and> min 8 16 < length vs\<close>
proof -
  have g: "get ex_tbl True ex_log = Inr ex_page"
    by code_simp
  have d: "datasets ex_log ''actuator_outputs'' = Inr ex_actuator_outputs"
    by (simp add: ex_log_def)
  have c: "getitem ex_actuator_outputs ''noutputs'' = Inr (IntCol [16])"
    "amax (IntCol [16]) = Inr (IntS 16)"
    by (simp_all add: ex_actuator_outputs_def getitem_def)
  have t: "getitem ex_actuator_outputs ''timestamp'' = Inr (IntCol [2000000])"
    by (simp add: ex_actuator_outputs_def getitem_def)
  from actuator_outputs_channel_count
      [THEN conjunct1, rule_format, of ex_tbl True ex_log ex_page ex_actuator_outputs
        "IntCol [16]" 16] g d c
  obtain off ct rs where a: "getitem ex_actuator_outputs ''timestamp'' = Inr ct"
    "length rs = col_len ct"
    "actuator_outputs_data ex_page = ''[ '' @ concat rs @ '' ]''"
    \<open>\<forall>i<length rs. \<exists>ts vs.
        stamp ex_actuator_outputs off i = Inr ts \<and> length vs = nat 16
        \<and> (\<forall>x<nat 16. field ex_actuator_outputs (''output['' @ show_nat (int x) @ '']'') i
              = Inr (vs ! x))
        \<and> rs ! i = ''["'' @ ts @ ''"'' @ concat (map (\<lambda>v. '', '' @ fmt 6 v) vs) @ ''], ''\<close>
    by blast
  from a(1,2) t have l: "length rs = 1"
    by auto
  then obtain r where rs: "rs = [r]"
    by (cases rs) auto
  with a(4) obtain ts vs where v:
    \<open>length vs = nat 16\<close>
    \<open>r = ''["'' @ ts @ ''"'' @ concat (map (\<lambda>v. '', '' @ fmt 6 v) vs) @ ''], ''\<close>
    by fastforce
  from a(3) rs have "actuator_outputs_data ex_page = ''[ '' @ r @ '' ]''"
    by simp
  with v show ?thesis
    by (intro exI [of _ ts] exI [of _ vs] exI [of _ r] exI [of _ "'' ]''"] conjI) simp_all
qed

subsection \<open>Flight mode records\<close>

lemma flight_mode_record_eq:
  \<open>flight_mode_record tbl off (t, mode) =
     bindE (utc_iso (IntS (t + off)))
       (\<lambda>ts. Inr (''["'' @ ts @ ''", "'' @
          (case tbl mode of None \<Rightarrow> '''' | Some (name, color) \<Rightarrow> name) @ ''"], ''))\<close>
  by (cases "utc_iso (IntS (t + off))")
     (auto simp: flight_mode_record_def flight_mode_label_def split: option.splits)

lemma get_flight_modes:
  assumes "get tbl v u = Inr p"
  shows \<open>\<exists>off rs. length rs = length (flight_mode_changes u)
     \<and> flight_modes p = ''[ '' @ concat rs @ '' ]''
     \<and> (\<forall>j<length rs. \<exists>ts.
           utc_iso (IntS (fst (flight_mode_changes u ! j) + off)) = Inr ts
           \<and> rs ! j = ''["'' @ ts @ ''", "'' @
               (case tbl (snd (flight_mode_changes u ! j)) of
                  None \<Rightarrow> '''' | Some (name, color) \<Rightarrow> name) @ ''"], '')\<close>
proof -
  from get_page_series [OF assms] obtain off where
    "flight_modes_str tbl off (flight_mode_changes u) = Inr (flight_modes p)"
    by blast
  then obtain rs where rs: "mapE (flight_mode_record tbl off) (flight_mode_changes u) = Inr rs"
    "flight_modes p = ''[ '' @ concat rs @ '' ]''"
    by (auto simp: flight_modes_str_def bindE_Inr_iff)
  from rs(1) have l: "length rs = length (flight_mode_changes u)"
    by (rule mapE_Inr_length)
  have \<open>\<exists>ts. utc_iso (IntS (fst (flight_mode_changes u ! j) + off)) = Inr ts
           \<and> rs ! j = ''["'' @ ts @ ''", "'' @
               (case tbl (snd (flight_mode_changes u ! j)) of
                  None \<Rightarrow> '''' | Some (name, color) \<Rightarrow> name) @ ''"], ''\<close>
    if "j < length rs" for j
  proof -
    from that l have "flight_mode_record tbl off (flight_mode_changes u ! j) = Inr (rs ! j)"
      using mapE_Inr_nth [OF rs(1)] by simp
    then have "flight_mode_record tbl off
        (fst (flight_mode_changes u ! j), snd (flight_mode_changes u ! j)) = Inr (rs ! j)"
      by simp
    then show ?thesis
      unfolding flight_mode_record_eq bindE_Inr_iff by auto
  qed
  with l rs(2) show ?thesis by blast
qed

text \<open>
  The flight mode text of the example log: the record of the change to the code \<open>-1\<close>,
  which the table does not hold, is the timestamp and an empty label; no colour is in
  the text.
\<close>

theorem unknown_mode_record_without_color:
  \<open>ex_tbl (- 1) = None
   \<and> flight_mode_changes ex_log = [(1000000, 2), (2000000, - 1)]
   \<and> (\<exists>p. get ex_tbl True ex_log = Inr p
        \<and> flight_modes p =
            ''[ ["2020-09-13T12:26:40.123456+00:00", "Position"], '' @
            ''["2020-09-13T12:26:41.123456+00:00", ""],  ]''
        \<and> CHR ''#'' \<notin> set (flight_modes p))
   \<and> flight_mode_record ex_tbl 1599999999123456 (2000000, - 1) =
       Inr ''["2020-09-13T12:26:41.123456+00:00", ""], ''\<close>
proof (intro conjI)
  show "ex_tbl (- 1) = None"
    by (simp add: ex_tbl_def)
next
  show "flight_mode_changes ex_log = [(1000000, 2), (2000000, - 1)]"
    by (simp add: ex_log_def)
next
  show \<open>\<exists>p. get ex_tbl True ex_log = Inr p
        \<and> flight_modes p =
            ''[ ["2020-09-13T12:26:40.123456+00:00", "Position"], '' @
            ''["2020-09-13T12:26:41.123456+00:00", ""],  ]''
        \<and> CHR ''#'' \<notin> set (flight_modes p)\<close>
    using get_ex_log by (simp add: ex_page_def)
next
  show \<open>flight_mode_record ex_tbl 1599999999123456 (2000000, - 1) =
       Inr ''["2020-09-13T12:26:41.123456+00:00", ""], ''\<close>
    by code_simp
qed

text \<open>
  Claim C8 (amended). For a mode code that is not in the table the loop selects the
  empty label and the colour \<open>#ffffff\<close>; for a code in the table it selects the table's
  label and colour. The record written for a mode change is the timestamp and the
  selected label, for every request that succeeds; the colour is not written. The lookup
  raises nothing: the record is there whenever the timestamp converts.
\<close>

theorem flight_mode_record_label:
  \<open>(\<forall>tbl mode. tbl mode = None \<longrightarrow> flight_mode_label tbl mode = ('''', ''#ffffff''))
   \<and> (\<forall>tbl mode name color. tbl mode = Some (name, color) \<longrightarrow>
         flight_mode_label tbl mode = (name, color))
   \<and> (\<forall>tbl off t mode.
         flight_mode_record tbl off (t, mode) =
           bindE (utc_iso (IntS (t + off)))
             (\<lambda>ts. Inr (''["'' @ ts @ ''", "'' @
                (case tbl mode of None \<Rightarrow> '''' | Some (name, color) \<Rightarrow> name) @ ''"], '')))
   \<and> (\<forall>tbl v u p. get tbl v u = Inr p \<longrightarrow>
         (\<exists>off rs. length rs = length (flight_mode_changes u)
            \<and> flight_modes p = ''[ '' @ concat rs @ '' ]''
            \<and> (\<forall>j<length rs. \<exists>ts.
                  utc_iso (IntS (fst (flight_mode_changes u ! j) + off)) = Inr ts
                  \<and> rs ! j = ''["'' @ ts @ ''", "'' @
                      (case tbl (snd (flight_mode_changes u ! j)) of
                         None \<Rightarrow> '''' | Some (name, color) \<Rightarrow> name) @ ''"], '')))
   \<and> (\<exists>p. get ex_tbl True ex_log = Inr p
        \<and> flight_modes p =
            ''[ ["2020-09-13T12:26:40.123456+00:00", "Position"], '' @
            ''["2020-09-13T12:26:41.123456+00:00", ""],  ]'')\<close>
proof (intro conjI allI impI)
  fix tbl :: "int \<rightharpoonup> string \<times> string" and mode
  assume "tbl mode = None"
  then show "flight_mode_label tbl mode = ('''', ''#ffffff'')"
    by (simp add: flight_mode_label_def)
next
  fix tbl :: "int \<rightharpoonup> string \<times> string" and mode name color
  assume "tbl mode = Some (name, color)"
  then show "flight_mode_label tbl mode = (name, color)"
    by (simp add: flight_mode_label_def)
next
  fix tbl off t mode
  show \<open>flight_mode_record tbl off (t, mode) =
           bindE (utc_iso (IntS (t + off)))
             (\<lambda>ts. Inr (''["'' @ ts @ ''", "'' @
                (case tbl mode of None \<Rightarrow> '''' | Some (name, color) \<Rightarrow> name) @ ''"], ''))\<close>
    by (rule flight_mode_record_eq)
next
  fix tbl v u p
  assume "get tbl v u = Inr p"
  then show \<open>\<exists>off rs. length rs = length (flight_mode_changes u)
            \<and> flight_modes p = ''[ '' @ concat rs @ '' ]''
            \<and> (\<forall>j<length rs. \<exists>ts.
                  utc_iso (IntS (fst (flight_mode_changes u ! j) + off)) = Inr ts
                  \<and> rs ! j = ''["'' @ ts @ ''", "'' @
                      (case tbl (snd (flight_mode_changes u ! j)) of
                         None \<Rightarrow> '''' | Some (name, color) \<Rightarrow> name) @ ''"], '')\<close>
    by (rule get_flight_modes)
next
  show \<open>\<exists>p. get ex_tbl True ex_log = Inr p
        \<and> flight_modes p =
            ''[ ["2020-09-13T12:26:40.123456+00:00", "Position"], '' @
            ''["2020-09-13T12:26:41.123456+00:00", ""],  ]''\<close>
    using get_ex_log by (simp add: ex_page_def)
qed

theorem flight_mode_record_label_witness:
  \<open>flight_mode_label ex_tbl (- 1) = ('''', ''#ffffff'')
   \<and> flight_mode_label ex_tbl 2 = (''Position'', ''#1f77b4'')
   \<and> (\<exists>off rs. length rs = length (flight_mode_changes ex_log)
        \<and> flight_modes ex_page = ''[ '' @ concat rs @ '' ]'')\<close>
proof -
  have a: "ex_tbl (- 1) = None" "ex_tbl 2 = Some (''Position'', ''#1f77b4'')"
    by (simp_all add: ex_tbl_def)
  have g: "get ex_tbl True ex_log = Inr ex_page"
    by code_simp
  note l1 = flight_mode_record_label [THEN conjunct1, rule_format, of ex_tbl "- 1", OF a(1)]
  note l2 = flight_mode_record_label
    [THEN conjunct2, THEN conjunct1, rule_format, of ex_tbl 2 "''Position''" "''#1f77b4''",
      OF a(2)]
  note l4 = flight_mode_record_label
    [THEN conjunct2, THEN conjunct2, THEN conjunct2, THEN conjunct1, rule_format, OF g]
  from l4 obtain off rs where "length rs = length (flight_mode_changes ex_log)"
    "flight_modes ex_page = ''[ '' @ concat rs @ '' ]''"
    by blast
  with l1 l2 show ?thesis
    by blast
qed

subsection \<open>Required streams\<close>

lemma caught_iff: "caught x \<longleftrightarrow> (\<exists>k. x = KeyError k) \<or> x = IndexError \<or> x = ValueError"
  by (cases x) simp_all



subsection \<open>Absent optional streams\<close>

lemma page_series_emptied:
  "page_series k (emptied k' p) =
     (if k = k' \<and> is_optional k' then ''[  ]'' else page_series k p)"
  by (cases k; cases k') simp_all

lemma emptied_other_fields:
  "flight_modes (emptied k p) = flight_modes p"
  "takeoff_altitude (emptied k p) = takeoff_altitude p"
  "takeoff_longitude (emptied k p) = takeoff_longitude p"
  "takeoff_latitude (emptied k p) = takeoff_latitude p"
  "start_timestamp (emptied k p) = start_timestamp p"
  "boot_timestamp (emptied k p) = boot_timestamp p"
  "end_timestamp (emptied k p) = end_timestamp p"
  "model_scale_factor (emptied k p) = model_scale_factor p"
  "model_uri (emptied k p) = model_uri p"
  by (cases k; simp)+

lemma absent_fields [simp]:
  "flight_mode_changes (absent e k u) = flight_mode_changes u"
  "initial_parameters (absent e k u) = initial_parameters u"
  "datasets (absent e k u) n = (if n = topic k then Inl e else datasets u n)"
  by (simp_all add: absent_def)

lemma load_optionals_absent:
  assumes "load_optionals u = Inr opt" "is_optional k" "caught e"
  shows "load_optionals (absent e k u) =
     Inr \<lparr> manual_control_setpoint =
             (if k = ManualControlSetpoint then None else manual_control_setpoint opt),
           vehicle_local_position =
             (if k = VehicleLocalPosition then None else vehicle_local_position opt),
           vehicle_local_position_setpoint =
             (if k = VehicleLocalPositionSetpoint then None
              else vehicle_local_position_setpoint opt),
           vehicle_attitude_setpoint =
             (if k = VehicleAttitudeSetpoint then None else vehicle_attitude_setpoint opt),
           vehicle_rates_setpoint =
             (if k = VehicleRatesSetpoint then None else vehicle_rates_setpoint opt),
           actuator_outputs =
             (if k = ActuatorOutputs then None else actuator_outputs opt),
           sensor_combined =
             (if k = SensorCombined then None else sensor_combined opt),
           actuator_controls_0 =
             (if k = ActuatorControls0 then None else actuator_controls_0 opt) \<rparr>"
  using assms unfolding load_optionals_Inr_iff
  by (cases k) (simp_all add: optional_def)

lemma optional_series_str_None: "optional_series_str k off None = Inr ''[  ]''"
  by (simp add: optional_series_str_def series_str_def)

lemma manual_control_setpoints_str_None: "manual_control_setpoints_str off None = Inr ''[  ]''"
  by (simp add: manual_control_setpoints_str_def series_str_def)

lemma get_absent:
  assumes "get tbl v u = Inr p" "is_optional k" "caught e"
  shows "get tbl v (absent e k u) = Inr (emptied k p)"
proof -
  from assms(1) obtain gps vgp att opt where g: v
    "datasets u ''vehicle_gps_position'' = Inr gps"
    "datasets u ''vehicle_global_position'' = Inr vgp"
    "datasets u ''vehicle_attitude'' = Inr att"
    "load_optionals u = Inr opt"
    "serialize tbl u gps att opt = Inr p"
    unfolding get_Inr_iff by blast
  let ?opt = "\<lparr> manual_control_setpoint =
             (if k = ManualControlSetpoint then None else manual_control_setpoint opt),
           vehicle_local_position =
             (if k = VehicleLocalPosition then None else vehicle_local_position opt),
           vehicle_local_position_setpoint =
             (if k = VehicleLocalPositionSetpoint then None
              else vehicle_local_position_setpoint opt),
           vehicle_attitude_setpoint =
             (if k = VehicleAttitudeSetpoint then None else vehicle_attitude_setpoint opt),
           vehicle_rates_setpoint =
             (if k = VehicleRatesSetpoint then None else vehicle_rates_setpoint opt),
           actuator_outputs =
             (if k = ActuatorOutputs then None else actuator_outputs opt),
           sensor_combined =
             (if k = SensorCombined then None else sensor_combined opt),
           actuator_controls_0 =
             (if k = ActuatorControls0 then None else actuator_controls_0 opt) \<rparr>"
  have r: "datasets (absent e k u) ''vehicle_gps_position'' = Inr gps"
    "datasets (absent e k u) ''vehicle_global_position'' = Inr vgp"
    "datasets (absent e k u) ''vehicle_attitude'' = Inr att"
    using g(2-4) assms(2) by (cases k; simp)+
  have l: "load_optionals (absent e k u) = Inr ?opt"
    using g(5) assms(2,3) by (rule load_optionals_absent)
  from g(6) obtain fx off pos atts where s:
    "getitem gps ''fix_type'' = Inr fx"
    "takeoff_altitude_str gps (takeoff_index fx) = Inr (takeoff_altitude p)"
    "takeoff_latitude_str gps (takeoff_index fx) = Inr (takeoff_latitude p)"
    "takeoff_longitude_str gps (takeoff_index fx) = Inr (takeoff_longitude p)"
    "utc_offset gps (takeoff_index fx) = Inr off"
    "flight_modes_str tbl off (flight_mode_changes u) = Inr (flight_modes p)"
    "manual_control_setpoints_str off (manual_control_setpoint opt)
       = Inr (manual_control_setpoints p)"
    "series_records Position off gps = Inr pos" "position_data p = series_str pos"
    "start_end_timestamps pos = Inr (start_timestamp p, end_timestamp p)"
    "boot_timestamp_str off = Inr (boot_timestamp p)"
    "series_records Attitude off att = Inr atts" "attitude_data p = series_str atts"
    "optional_series_str VehicleRatesSetpoint off (vehicle_rates_setpoint opt)
       = Inr (vehicle_rates_setpoint_data p)"
    "optional_series_str SensorCombined off (sensor_combined opt)
       = Inr (sensor_combined_data p)"
    "optional_series_str VehicleAttitudeSetpoint off (vehicle_attitude_setpoint opt)
       = Inr (vehicle_attitude_setpoint_data p)"
    "optional_series_str VehicleLocalPosition off (vehicle_local_position opt)
       = Inr (vehicle_local_position_data p)"
    "optional_series_str VehicleLocalPositionSetpoint off (vehicle_local_position_setpoint opt)
       = Inr (vehicle_local_position_setpoint_data p)"
    "optional_series_str ActuatorOutputs off (actuator_outputs opt)
       = Inr (actuator_outputs_data p)"
    "optional_series_str ActuatorControls0 off (actuator_controls_0 opt)
       = Inr (actuator_controls_0_data p)"
    "model_scale_factor p = fst (select_model (initial_parameters u ''MAV_TYPE''))"
    "model_uri p = snd (select_model (initial_parameters u ''MAV_TYPE''))"
    unfolding serialize_Inr_iff by blast
  have "serialize tbl (absent e k u) gps att ?opt = Inr (emptied k p)"
    unfolding serialize_Inr_iff
    apply (rule exI [of _ fx], rule exI [of _ off], rule exI [of _ pos], rule exI [of _ atts])
    using s assms(2)
    by (cases k)
       (simp_all add: optional_series_str_None manual_control_setpoints_str_None
          del: series_records.simps)
  with g(1) r l show ?thesis
    unfolding get_Inr_iff by blast
qed

lemma get_absent_fold:
  assumes "get tbl v u = Inr p" "\<forall>k\<in>set ks. is_optional k" "caught e"
  shows "get tbl v (fold (absent e) ks u) = Inr (fold emptied ks p)"
  using assms
proof (induction ks arbitrary: u p)
  case Nil
  then show ?case by simp
next
  case (Cons k ks)
  from Cons.prems have "get tbl v (absent e k u) = Inr (emptied k p)"
    by (intro get_absent) simp_all
  with Cons show ?case by simp
qed

lemma page_series_fold_emptied:
  "\<forall>k\<in>set ks. is_optional k \<Longrightarrow>
     page_series k (fold emptied ks p) = (if k \<in> set ks then ''[  ]'' else page_series k p)"
proof (induction ks arbitrary: p)
  case Nil
  then show ?case by simp
next
  case (Cons k' ks)
  then show ?case
    by (auto simp: page_series_emptied)
qed

lemma fold_emptied_other_fields:
  "flight_modes (fold emptied ks p) = flight_modes p"
  "takeoff_altitude (fold emptied ks p) = takeoff_altitude p"
  "takeoff_longitude (fold emptied ks p) = takeoff_longitude p"
  "takeoff_latitude (fold emptied ks p) = takeoff_latitude p"
  "start_timestamp (fold emptied ks p) = start_timestamp p"
  "boot_timestamp (fold emptied ks p) = boot_timestamp p"
  "end_timestamp (fold emptied ks p) = end_timestamp p"
  "model_scale_factor (fold emptied ks p) = model_scale_factor p"
  "model_uri (fold emptied ks p) = model_uri p"
  by (induction ks arbitrary: p; simp add: emptied_other_fields)+

lemma fold_absent_fields:
  "flight_mode_changes (fold (absent e) ks u) = flight_mode_changes u"
  "initial_parameters (fold (absent e) ks u) = initial_parameters u"
  "datasets (fold (absent e) ks u) n = (if n \<in> topic ` set ks then Inl e else datasets u n)"
  by (induction ks arbitrary: u; auto)+

text \<open>
  Claim C5. When the lookups of any optional topics fail with \<open>KeyError\<close>, \<open>IndexError\<close>
  or \<open>ValueError\<close>, the request still succeeds, the text of each of these series is the
  empty series \<open>[  ]\<close>, and every other series and value of the page is what it is
  with the topics present. This holds for every list \<open>ks\<close> of optional series.
\<close>

theorem absent_optional_streams:
  assumes "get tbl v u = Inr p" and "\<forall>k\<in>set ks. is_optional k"
    and "(\<exists>n. e = KeyError n) \<or> e = IndexError \<or> e = ValueError"
  shows "get tbl v (fold (absent e) ks u) = Inr (fold emptied ks p)
     \<and> (\<forall>n. datasets (fold (absent e) ks u) n =
              (if n \<in> topic ` set ks then Inl e else datasets u n))
     \<and> (\<forall>k\<in>set ks. page_series k (fold emptied ks p) = ''[  ]'')
     \<and> (\<forall>k. k \<notin> set ks \<longrightarrow> page_series k (fold emptied ks p) = page_series k p)
     \<and> flight_modes (fold emptied ks p) = flight_modes p
     \<and> takeoff_altitude (fold emptied ks p) = takeoff_altitude p
     \<and> takeoff_longitude (fold emptied ks p) = takeoff_longitude p
     \<and> takeoff_latitude (fold emptied ks p) = takeoff_latitude p
     \<and> start_timestamp (fold emptied ks p) = start_timestamp p
     \<and> boot_timestamp (fold emptied ks p) = boot_timestamp p
     \<and> end_timestamp (fold emptied ks p) = end_timestamp p
     \<and> model_scale_factor (fold emptied ks p) = model_scale_factor p
     \<and> model_uri (fold emptied ks p) = model_uri p
     \<and> (\<forall>k x. is_optional k \<and> datasets u (topic k) = Inl x
           \<and> ((\<exists>n. x = KeyError n) \<or> x = IndexError \<or> x = ValueError) \<longrightarrow>
           page_series k p = ''[  ]'')"
proof (intro conjI allI ballI impI)
  from assms(3) have "caught e"
    unfolding caught_iff .
  with assms(1,2) show "get tbl v (fold (absent e) ks u) = Inr (fold emptied ks p)"
    by (rule get_absent_fold)
next
  fix k x
  assume h: "is_optional k \<and> datasets u (topic k) = Inl x
           \<and> ((\<exists>n. x = KeyError n) \<or> x = IndexError \<or> x = ValueError)"
  then have c: "caught x"
    unfolding caught_iff by blast
  from h have "absent x k u = u"
    by (cases u) (simp add: absent_def fun_upd_idem)
  moreover from h c assms(1) have "get tbl v (absent x k u) = Inr (emptied k p)"
    by (intro get_absent) simp_all
  ultimately have "emptied k p = p"
    using assms(1) by simp
  then have "page_series k p = page_series k (emptied k p)"
    by simp
  with h show "page_series k p = ''[  ]''"
    by (simp add: page_series_emptied)
qed (simp_all add: fold_absent_fields fold_emptied_other_fields page_series_fold_emptied assms(2))

theorem absent_optional_streams_witness:
  "get ex_tbl True (fold (absent IndexError) [ManualControlSetpoint, ActuatorOutputs] ex_log) =
     Inr (ex_page \<lparr> manual_control_setpoints := ''[  ]'', actuator_outputs_data := ''[  ]'' \<rparr>)
   \<and> page_series SensorCombined ex_page = ''[  ]''"
proof -
  have g: "get ex_tbl True ex_log = Inr ex_page"
    by code_simp
  have o: "\<forall>k\<in>set [ManualControlSetpoint, ActuatorOutputs]. is_optional k"
    by simp
  have c: "(\<exists>n. IndexError = KeyError n) \<or> IndexError = IndexError \<or> IndexError = ValueError"
    by simp
  have s: "is_optional SensorCombined \<and> datasets ex_log (topic SensorCombined) = Inl IndexError
      \<and> ((\<exists>n. IndexError = KeyError n) \<or> IndexError = IndexError \<or> IndexError = ValueError)"
    by (simp add: ex_log_def)
  note t = absent_optional_streams [OF g o c]
  from t have "get ex_tbl True (fold (absent IndexError) [ManualControlSetpoint, ActuatorOutputs] ex_log)
      = Inr (fold emptied [ManualControlSetpoint, ActuatorOutputs] ex_page)"
    by (rule conjunct1)
  moreover from t s have "page_series SensorCombined ex_page = ''[  ]''"
    by blast
  ultimately show ?thesis
    by simp
qed

subsection \<open>The UTC offset\<close>

lemma row_stamp:
  "manual_control_setpoint_row off d i = Inr r \<Longrightarrow> stamp d off i = Inr (fst r)"
  "position_row off d i = Inr r \<Longrightarrow> stamp d off i = Inr (fst r)"
  "attitude_row off d i = Inr r \<Longrightarrow> stamp d off i = Inr (fst r)"
  "vehicle_rates_setpoint_row off d i = Inr r \<Longrightarrow> stamp d off i = Inr (fst r)"
  "sensor_combined_row off d i = Inr r \<Longrightarrow> stamp d off i = Inr (fst r)"
  "vehicle_attitude_setpoint_row off d i = Inr r \<Longrightarrow> stamp d off i = Inr (fst r)"
  "vehicle_local_position_row off d i = Inr r \<Longrightarrow> stamp d off i = Inr (fst r)"
  "actuator_controls_0_row off d i = Inr r \<Longrightarrow> stamp d off i = Inr (fst r)"
  "actuator_outputs_row m off d i = Inr r \<Longrightarrow> stamp d off i = Inr (fst r)"
  unfolding manual_control_setpoint_row_def position_row_def attitude_row_def
    vehicle_rates_setpoint_row_def sensor_combined_row_def vehicle_attitude_setpoint_row_def
    vehicle_local_position_row_def actuator_controls_0_row_def actuator_outputs_row_def
    bindE_Inr_iff Let_def
  by auto

lemma rows_stamp:
  assumes "rows d body = Inr rs" and "\<And>i r. body i = Inr r \<Longrightarrow> stamp d off i = Inr (fst r)"
  shows "\<exists>c. getitem d ''timestamp'' = Inr c \<and> length rs = col_len c
           \<and> (\<forall>i<length rs. stamp d off i = Inr (fst (rs ! i)))"
  using rows_Inr_nth [OF assms(1)] assms(2) by blast

lemma series_records_stamp:
  assumes "series_records k off d = Inr rs"
  shows "\<exists>c. getitem d ''timestamp'' = Inr c \<and> length rs = col_len c
           \<and> (\<forall>i<length rs. stamp d off i = Inr (fst (rs ! i)))"
proof (cases k)
  case ManualControlSetpoint
  with assms have "rows d (manual_control_setpoint_row off d) = Inr rs"
    by simp
  then show ?thesis
    by (rule rows_stamp) (rule row_stamp(1))
next
  case Position
  with assms have "rows d (position_row off d) = Inr rs"
    by simp
  then show ?thesis
    by (rule rows_stamp) (rule row_stamp(2))
next
  case Attitude
  with assms have "rows d (attitude_row off d) = Inr rs"
    by simp
  then show ?thesis
    by (rule rows_stamp) (rule row_stamp(3))
next
  case VehicleRatesSetpoint
  with assms have "rows d (vehicle_rates_setpoint_row off d) = Inr rs"
    by simp
  then show ?thesis
    by (rule rows_stamp) (rule row_stamp(4))
next
  case SensorCombined
  with assms have "rows d (sensor_combined_row off d) = Inr rs"
    by simp
  then show ?thesis
    by (rule rows_stamp) (rule row_stamp(5))
next
  case VehicleAttitudeSetpoint
  with assms have "rows d (vehicle_attitude_setpoint_row off d) = Inr rs"
    by simp
  then show ?thesis
    by (rule rows_stamp) (rule row_stamp(6))
next
  case VehicleLocalPosition
  with assms have "rows d (vehicle_local_position_row off d) = Inr rs"
    by simp
  then show ?thesis
    by (rule rows_stamp) (rule row_stamp(7))
next
  case VehicleLocalPositionSetpoint
  with assms have "rows d (vehicle_local_position_row off d) = Inr rs"
    by simp
  then show ?thesis
    by (rule rows_stamp) (rule row_stamp(7))
next
  case ActuatorOutputs
  with assms obtain m where "rows d (actuator_outputs_row m off d) = Inr rs"
    by (auto simp: actuator_outputs_records_def bindE_Inr_iff)
  then show ?thesis
    by (rule rows_stamp) (rule row_stamp(9))
next
  case ActuatorControls0
  with assms have "rows d (actuator_controls_0_row off d) = Inr rs"
    by simp
  then show ?thesis
    by (rule rows_stamp) (rule row_stamp(8))
qed

lemma fmt_record_head:
  \<open>fmt_record r = ''["'' @ fst r @ ''"'' @ (concat (map (\<lambda>f. '', '' @ f) (snd r)) @ ''], '')\<close>
  by (simp add: fmt_record_def)

lemma flight_modes_str_Inr:
  assumes "flight_modes_str tbl off cs = Inr s"
  shows \<open>\<exists>ms. length ms = length cs \<and> s = ''[ '' @ concat ms @ '' ]''
     \<and> (\<forall>j<length ms. \<exists>ts rest.
           utc_iso (IntS (fst (cs ! j) + off)) = Inr ts \<and> ms ! j = ''["'' @ ts @ ''"'' @ rest)\<close>
proof -
  from assms obtain ms where ms: "mapE (flight_mode_record tbl off) cs = Inr ms"
    "s = ''[ '' @ concat ms @ '' ]''"
    by (auto simp: flight_modes_str_def bindE_Inr_iff)
  from ms(1) have l: "length ms = length cs"
    by (rule mapE_Inr_length)
  have \<open>\<exists>ts rest. utc_iso (IntS (fst (cs ! j) + off)) = Inr ts
      \<and> ms ! j = ''["'' @ ts @ ''"'' @ rest\<close> if "j < length ms" for j
  proof -
    from that l have "flight_mode_record tbl off (fst (cs ! j), snd (cs ! j)) = Inr (ms ! j)"
      using mapE_Inr_nth [OF ms(1)] by simp
    then obtain ts where ts: "utc_iso (IntS (fst (cs ! j) + off)) = Inr ts"
      \<open>ms ! j = ''["'' @ ts @ ''"'' @ ('', "'' @
          (case tbl (snd (cs ! j)) of None \<Rightarrow> '''' | Some (name, color) \<Rightarrow> name) @ ''"], '')\<close>
      unfolding flight_mode_record_eq bindE_Inr_iff by auto
    then show ?thesis
      by blast
  qed
  with l ms(2) show ?thesis by blast
qed

text \<open>
  Claim C3. For every request that succeeds there is one offset, the integer of
  \<open>time_utc_usec\<close> minus the integer of \<open>timestamp\<close> at the takeoff index of the GPS
  samples; the timestamp text of every record of every series handed to the page, of
  every flight mode change, and the boot timestamp are the conversion of the device
  time plus this offset. So two records of any two series made with one offset from
  equal device timestamps begin with the same timestamp text.
\<close>

theorem single_utc_offset:
  \<open>(\<forall>tbl v u p. get tbl v u = Inr p \<longrightarrow>
      (\<exists>gps fx a b ua ub off.
         datasets u ''vehicle_gps_position'' = Inr gps
         \<and> getitem gps ''fix_type'' = Inr fx
         \<and> field gps ''time_utc_usec'' (takeoff_index fx) = Inr a \<and> py_int a = Inr ua
         \<and> field gps ''timestamp'' (takeoff_index fx) = Inr b \<and> py_int b = Inr ub
         \<and> off = ua - ub
         \<and> (\<forall>k d. datasets u (topic k) = Inr d \<and> (k = ManualControlSetpoint \<longrightarrow> d \<noteq> []) \<longrightarrow>
               (\<exists>c rs. series_records k off d = Inr rs
                  \<and> getitem d ''timestamp'' = Inr c \<and> length rs = col_len c
                  \<and> page_series k p = ''[ '' @ concat (map fmt_record rs) @ '' ]''
                  \<and> (\<forall>i<length rs. \<exists>t t' s rest.
                        field d ''timestamp'' i = Inr t \<and> add_offset t off = Inr t'
                        \<and> utc_iso t' = Inr s
                        \<and> fmt_record (rs ! i) = ''["'' @ s @ ''"'' @ rest)))
         \<and> (\<exists>ms. length ms = length (flight_mode_changes u)
               \<and> flight_modes p = ''[ '' @ concat ms @ '' ]''
               \<and> (\<forall>j<length ms. \<exists>s rest.
                     utc_iso (IntS (fst (flight_mode_changes u ! j) + off)) = Inr s
                     \<and> ms ! j = ''["'' @ s @ ''"'' @ rest))
         \<and> (\<exists>s. utc_iso (IntS off) = Inr s \<and> boot_timestamp p = ''"'' @ s @ ''"'')))
   \<and> (\<forall>off kA dA rsA kB dB rsB i j.
         series_records kA off dA = Inr rsA \<and> series_records kB off dB = Inr rsB
         \<and> i < length rsA \<and> j < length rsB
         \<and> field dA ''timestamp'' i = field dB ''timestamp'' j \<longrightarrow>
         (\<exists>s restA restB.
            fmt_record (rsA ! i) = ''["'' @ s @ ''"'' @ restA
            \<and> fmt_record (rsB ! j) = ''["'' @ s @ ''"'' @ restB))
   \<and> utc_offset ex_gps 1 = Inr (1600000001123456 - 2000000)
   \<and> (\<exists>p. get ex_tbl True ex_log = Inr p
        \<and> position_data p =
            ''[ ["2020-09-13T12:26:40.123456+00:00", 47.3977410000, 8.5455930000, 1.400], '' @
            ''["2020-09-13T12:26:41.123456+00:00", 47.3977420000, 8.5455940000, 1.500],  ]''
        \<and> attitude_data p =
            ''[ ["2020-09-13T12:26:41.123456+00:00", 0.100000, 0.200000, 0.680000, '' @
            ''0.700000, -0.010000, 0.000000, 1.250000],  ]''
        \<and> manual_control_setpoints p =
            ''[ ["2020-09-13T12:26:40.623456+00:00", 0.500, -0.250, 0.600, 0.000],  ]''
        \<and> boot_timestamp p = ''"2020-09-13T12:26:39.123456+00:00"'')\<close>
proof (intro conjI allI impI)
  fix tbl v u p
  assume g: "get tbl v u = Inr p"
  from get_page_series [OF g] obtain gps fx off where f:
    "datasets u ''vehicle_gps_position'' = Inr gps"
    "getitem gps ''fix_type'' = Inr fx"
    "utc_offset gps (takeoff_index fx) = Inr off"
    "flight_modes_str tbl off (flight_mode_changes u) = Inr (flight_modes p)"
    "boot_timestamp_str off = Inr (boot_timestamp p)"
    and a: "\<forall>k d. datasets u (topic k) = Inr d \<and> (k = ManualControlSetpoint \<longrightarrow> d \<noteq> []) \<longrightarrow>
          (\<exists>rs. series_records k off d = Inr rs \<and> page_series k p = series_str rs)"
    by blast
  from f(3) obtain a' ua b ub where o:
    "field gps ''time_utc_usec'' (takeoff_index fx) = Inr a'" "py_int a' = Inr ua"
    "field gps ''timestamp'' (takeoff_index fx) = Inr b" "py_int b = Inr ub"
    "off = ua - ub"
    unfolding utc_offset_def bindE_Inr_iff by auto
  have series: \<open>\<forall>k d. datasets u (topic k) = Inr d \<and> (k = ManualControlSetpoint \<longrightarrow> d \<noteq> []) \<longrightarrow>
               (\<exists>c rs. series_records k off d = Inr rs
                  \<and> getitem d ''timestamp'' = Inr c \<and> length rs = col_len c
                  \<and> page_series k p = ''[ '' @ concat (map fmt_record rs) @ '' ]''
                  \<and> (\<forall>i<length rs. \<exists>t t' s rest.
                        field d ''timestamp'' i = Inr t \<and> add_offset t off = Inr t'
                        \<and> utc_iso t' = Inr s
                        \<and> fmt_record (rs ! i) = ''["'' @ s @ ''"'' @ rest))\<close>
  proof (intro allI impI)
    fix k d
    assume "datasets u (topic k) = Inr d \<and> (k = ManualControlSetpoint \<longrightarrow> d \<noteq> [])"
    with a obtain rs where rs: "series_records k off d = Inr rs"
      "page_series k p = series_str rs"
      by blast
    from series_records_stamp [OF rs(1)] obtain c where c:
      "getitem d ''timestamp'' = Inr c" "length rs = col_len c"
      "\<forall>i<length rs. stamp d off i = Inr (fst (rs ! i))"
      by blast
    have \<open>\<exists>t t' s rest.
            field d ''timestamp'' i = Inr t \<and> add_offset t off = Inr t'
            \<and> utc_iso t' = Inr s
            \<and> fmt_record (rs ! i) = ''["'' @ s @ ''"'' @ rest\<close> if "i < length rs" for i
    proof -
      from c(3) that have "stamp d off i = Inr (fst (rs ! i))"
        by simp
      then obtain t t' where "field d ''timestamp'' i = Inr t" "add_offset t off = Inr t'"
        "utc_iso t' = Inr (fst (rs ! i))"
        unfolding stamp_Inr_iff by blast
      then show ?thesis
        using fmt_record_head [of "rs ! i"] by blast
    qed
    moreover have "page_series k p = ''[ '' @ concat (map fmt_record rs) @ '' ]''"
      using rs(2) by (simp add: series_str_def)
    ultimately show \<open>\<exists>c rs. series_records k off d = Inr rs
                  \<and> getitem d ''timestamp'' = Inr c \<and> length rs = col_len c
                  \<and> page_series k p = ''[ '' @ concat (map fmt_record rs) @ '' ]''
                  \<and> (\<forall>i<length rs. \<exists>t t' s rest.
                        field d ''timestamp'' i = Inr t \<and> add_offset t off = Inr t'
                        \<and> utc_iso t' = Inr s
                        \<and> fmt_record (rs ! i) = ''["'' @ s @ ''"'' @ rest)\<close>
      using rs(1) c(1,2) by blast
  qed
  have fm: \<open>\<exists>ms. length ms = length (flight_mode_changes u)
               \<and> flight_modes p = ''[ '' @ concat ms @ '' ]''
               \<and> (\<forall>j<length ms. \<exists>s rest.
                     utc_iso (IntS (fst (flight_mode_changes u ! j) + off)) = Inr s
                     \<and> ms ! j = ''["'' @ s @ ''"'' @ rest)\<close>
    using flight_modes_str_Inr [OF f(4)] .
  have boot: \<open>\<exists>s. utc_iso (IntS off) = Inr s \<and> boot_timestamp p = ''"'' @ s @ ''"''\<close>
    using f(5) by (auto simp: boot_timestamp_str_def bindE_Inr_iff)
  show \<open>\<exists>gps fx a b ua ub off.
         datasets u ''vehicle_gps_position'' = Inr gps
         \<and> getitem gps ''fix_type'' = Inr fx
         \<and> field gps ''time_utc_usec'' (takeoff_index fx) = Inr a \<and> py_int a = Inr ua
         \<and> field gps ''timestamp'' (takeoff_index fx) = Inr b \<and> py_int b = Inr ub
         \<and> off = ua - ub
         \<and> (\<forall>k d. datasets u (topic k) = Inr d \<and> (k = ManualControlSetpoint \<longrightarrow> d \<noteq> []) \<longrightarrow>
               (\<exists>c rs. series_records k off d = Inr rs
                  \<and> getitem d ''timestamp'' = Inr c \<and> length rs = col_len c
                  \<and> page_series k p = ''[ '' @ concat (map fmt_record rs) @ '' ]''
                  \<and> (\<forall>i<length rs. \<exists>t t' s rest.
                        field d ''timestamp'' i = Inr t \<and> add_offset t off = Inr t'
                        \<and> utc_iso t' = Inr s
                        \<and> fmt_record (rs ! i) = ''["'' @ s @ ''"'' @ rest)))
         \<and> (\<exists>ms. length ms = length (flight_mode_changes u)
               \<and> flight_modes p = ''[ '' @ concat ms @ '' ]''
               \<and> (\<forall>j<length ms. \<exists>s rest.
                     utc_iso (IntS (fst (flight_mode_changes u ! j) + off)) = Inr s
                     \<and> ms ! j = ''["'' @ s @ ''"'' @ rest))
         \<and> (\<exists>s. utc_iso (IntS off) = Inr s \<and> boot_timestamp p = ''"'' @ s @ ''"'')\<close>
    by (rule exI [of _ gps], rule exI [of _ fx], rule exI [of _ a'], rule exI [of _ b],
        rule exI [of _ ua], rule exI [of _ ub], rule exI [of _ off])
       (intro conjI f(1,2) o series fm boot)
next
  fix off kA dA rsA kB dB rsB i j
  assume h: "series_records kA off dA = Inr rsA \<and> series_records kB off dB = Inr rsB
         \<and> i < length rsA \<and> j < length rsB
         \<and> field dA ''timestamp'' i = field dB ''timestamp'' j"
  then have "stamp dA off i = Inr (fst (rsA ! i))" "stamp dB off j = Inr (fst (rsB ! j))"
    using series_records_stamp by blast+
  with h have "fst (rsA ! i) = fst (rsB ! j)"
    by (simp add: stamp_def)
  then show \<open>\<exists>s restA restB.
            fmt_record (rsA ! i) = ''["'' @ s @ ''"'' @ restA
            \<and> fmt_record (rsB ! j) = ''["'' @ s @ ''"'' @ restB\<close>
    using fmt_record_head [of "rsA ! i"] fmt_record_head [of "rsB ! j"] by metis
next
  show "utc_offset ex_gps 1 = Inr (1600000001123456 - 2000000)"
    by code_simp
next
  show \<open>\<exists>p. get ex_tbl True ex_log = Inr p
        \<and> position_data p =
            ''[ ["2020-09-13T12:26:40.123456+00:00", 47.3977410000, 8.5455930000, 1.400], '' @
            ''["2020-09-13T12:26:41.123456+00:00", 47.3977420000, 8.5455940000, 1.500],  ]''
        \<and> attitude_data p =
            ''[ ["2020-09-13T12:26:41.123456+00:00", 0.100000, 0.200000, 0.680000, '' @
            ''0.700000, -0.010000, 0.000000, 1.250000],  ]''
        \<and> manual_control_setpoints p =
            ''[ ["2020-09-13T12:26:40.623456+00:00", 0.500, -0.250, 0.600, 0.000],  ]''
        \<and> boot_timestamp p = ''"2020-09-13T12:26:39.123456+00:00"''\<close>
    using get_ex_log by (simp add: ex_page_def)
qed

theorem single_utc_offset_witness:
  \<open>(\<exists>gps fx a b ua ub off.
      datasets ex_log ''vehicle_gps_position'' = Inr gps
      \<and> getitem gps ''fix_type'' = Inr fx
      \<and> field gps ''time_utc_usec'' (takeoff_index fx) = Inr a \<and> py_int a = Inr ua
      \<and> field gps ''timestamp'' (takeoff_index fx) = Inr b \<and> py_int b = Inr ub
      \<and> off = ua - ub
      \<and> (\<exists>s. utc_iso (IntS off) = Inr s \<and> boot_timestamp ex_page = ''"'' @ s @ ''"''))
   \<and> (\<exists>s restA restB.
        ''["2020-09-13T12:26:41.123456+00:00", 47.3977420000, 8.5455940000, 1.500], ''
          = ''["'' @ s @ ''"'' @ restA
        \<and> ''["2020-09-13T12:26:41.123456+00:00", 0.100000, 0.200000, 0.680000, '' @
           ''0.700000, -0.010000, 0.000000, 1.250000], ''
          = ''["'' @ s @ ''"'' @ restB)\<close>
proof -
  have g: "get ex_tbl True ex_log = Inr ex_page"
    by code_simp
  from single_utc_offset [THEN conjunct1, rule_format, OF g]
  have 1: \<open>\<exists>gps fx a b ua ub off.
      datasets ex_log ''vehicle_gps_position'' = Inr gps
      \<and> getitem gps ''fix_type'' = Inr fx
      \<and> field gps ''time_utc_usec'' (takeoff_index fx) = Inr a \<and> py_int a = Inr ua
      \<and> field gps ''timestamp'' (takeoff_index fx) = Inr b \<and> py_int b = Inr ub
      \<and> off = ua - ub
      \<and> (\<exists>s. utc_iso (IntS off) = Inr s \<and> boot_timestamp ex_page = ''"'' @ s @ ''"'')\<close>
    by (elim exE conjE) (intro exI conjI, assumption+)
  have a: \<open>series_records Position 1599999999123456 ex_gps =
      Inr [(''2020-09-13T12:26:40.123456+00:00'', [''47.3977410000'', ''8.5455930000'', ''1.400'']),
           (''2020-09-13T12:26:41.123456+00:00'', [''47.3977420000'', ''8.5455940000'', ''1.500''])]\<close>
    by code_simp
  have b: \<open>series_records Attitude 1599999999123456 ex_attitude =
      Inr [(''2020-09-13T12:26:41.123456+00:00'',
            [''0.100000'', ''0.200000'', ''0.680000'', ''0.700000'',
             ''-0.010000'', ''0.000000'', ''1.250000''])]\<close>
    by code_simp
  have c: "field ex_gps ''timestamp'' 1 = field ex_attitude ''timestamp'' 0"
    by code_simp
  from single_utc_offset [THEN conjunct2, THEN conjunct1, rule_format,
      of Position 1599999999123456 ex_gps _ Attitude ex_attitude _ 1 0] a b c
  have 2: \<open>\<exists>s restA restB.
        fmt_record (''2020-09-13T12:26:41.123456+00:00'',
            [''47.3977420000'', ''8.5455940000'', ''1.500''])
          = ''["'' @ s @ ''"'' @ restA
        \<and> fmt_record (''2020-09-13T12:26:41.123456+00:00'',
            [''0.100000'', ''0.200000'', ''0.680000'', ''0.700000'',
             ''-0.010000'', ''0.000000'', ''1.250000''])
          = ''["'' @ s @ ''"'' @ restB\<close>
    by simp
  have 3: \<open>fmt_record (''2020-09-13T12:26:41.123456+00:00'',
            [''47.3977420000'', ''8.5455940000'', ''1.500''])
        = ''["2020-09-13T12:26:41.123456+00:00", 47.3977420000, 8.5455940000, 1.500], ''\<close>
    \<open>fmt_record (''2020-09-13T12:26:41.123456+00:00'',
            [''0.100000'', ''0.200000'', ''0.680000'', ''0.700000'',
             ''-0.010000'', ''0.000000'', ''1.250000''])
        = ''["2020-09-13T12:26:41.123456+00:00", 0.100000, 0.200000, 0.680000, '' @
           ''0.700000, -0.010000, 0.000000, 1.250000], ''\<close>
    by (simp_all add: fmt_record_def)
  from 2 have \<open>\<exists>s restA restB.
        ''["2020-09-13T12:26:41.123456+00:00", 47.3977420000, 8.5455940000, 1.500], ''
          = ''["'' @ s @ ''"'' @ restA
        \<and> ''["2020-09-13T12:26:41.123456+00:00", 0.100000, 0.200000, 0.680000, '' @
           ''0.700000, -0.010000, 0.000000, 1.250000], ''
          = ''["'' @ s @ ''"'' @ restB\<close>
    unfolding 3 .
  with 1 show ?thesis
    by (rule conjI)
qed

end
